theory Spec2Isabelle
  imports Main "HOL-Library.Sublist"
begin

section \<open>TravelTools server: the weather resolver and the mock travel catalog\<close>

text \<open>
  A shallow embedding of \<^verbatim>\<open>src/lab12/travel_tools_server.py\<close>. Every function of the
  module is a HOL function of the same name (without the leading underscore, which an
  Isabelle name cannot start with).

  Python \<^verbatim>\<open>str\<close> values are Isabelle strings. The library routines on strings
  (\<^verbatim>\<open>strip\<close>, \<^verbatim>\<open>lower\<close>, \<^verbatim>\<open>repr\<close>, the digits of \<^verbatim>\<open>strptime\<close>) are modelled on the
  ASCII range; a character above \<^verbatim>\<open>0x7F\<close> stands for a byte of the UTF-8 form of a
  printable, caseless, non-space, non-digit code point, which those routines leave alone.
  The three characters of the program's literals that are outside ASCII (the degree sign,
  the arrow and the dash) are written as their UTF-8 bytes.
\<close>

subsection \<open>Python strings\<close>

definition isspace :: "char \<Rightarrow> bool" where
  \<comment> \<open>\<^verbatim>\<open>str.isspace\<close> on ASCII: TAB, LF, VT, FF, CR, the separators FS, GS, RS, US, and SPACE.\<close>
  "isspace c = (let n = (of_char c :: nat) in (9 \<le> n \<and> n \<le> 13) \<or> (28 \<le> n \<and> n \<le> 32))"

definition str_strip :: "string \<Rightarrow> string" where
  "str_strip s = rev (dropWhile isspace (rev (dropWhile isspace s)))"



definition lstrip_slash :: "string \<Rightarrow> string" where
  \<comment> \<open>\<^verbatim>\<open>endpoint.lstrip('/')\<close>\<close>
  "lstrip_slash s = dropWhile (\<lambda>c. c = CHR ''/'') s"


definition digit_char :: "nat \<Rightarrow> char" where
  "digit_char n = char_of (48 + n)"

fun str_nat :: "nat \<Rightarrow> string" where
  "str_nat n = (if n < 10 then [digit_char n] else str_nat (n div 10) @ [digit_char (n mod 10)])"

declare str_nat.simps [simp del]

definition str_int :: "int \<Rightarrow> string" where
  \<comment> \<open>\<^verbatim>\<open>str(n)\<close> of a Python int\<close>
  "str_int n = (if n < 0 then CHR ''-'' # str_nat (nat (- n)) else str_nat (nat n))"

definition zero_pad :: "nat \<Rightarrow> int \<Rightarrow> string" where
  \<comment> \<open>\<^verbatim>\<open>"%0wd" % n\<close> for a non-negative \<open>n\<close>\<close>
  "zero_pad w n = (let s = str_int n in replicate (w - length s) CHR ''0'' @ s)"

definition hex_char :: "nat \<Rightarrow> char" where
  "hex_char n = (if n < 10 then char_of (48 + n) else char_of (87 + n))"

definition squote :: char where "squote = CHR 0x27"
definition dquote :: char where "dquote = CHR 0x22"
definition backslash :: char where "backslash = CHR 0x5C"

definition repr_char :: "char \<Rightarrow> char \<Rightarrow> string" where
  \<comment> \<open>one character of \<^verbatim>\<open>repr(s)\<close>, the quote chosen being \<open>q\<close>\<close>
  "repr_char q c = (let n = (of_char c :: nat) in
     if c = q \<or> c = backslash then [backslash, c]
     else if n = 9 then [backslash, CHR ''t'']
     else if n = 10 then [backslash, CHR ''n'']
     else if n = 13 then [backslash, CHR ''r'']
     else if n < 32 \<or> n = 127 then [backslash, CHR ''x'', hex_char (n div 16), hex_char (n mod 16)]
     else [c])"

definition repr_quote :: "string \<Rightarrow> char" where
  \<comment> \<open>single quotes, unless the string has a single quote and no double quote\<close>
  "repr_quote s = (if squote \<in> set s \<and> dquote \<notin> set s then dquote else squote)"

definition str_repr :: "string \<Rightarrow> string" where
  \<comment> \<open>\<^verbatim>\<open>repr(s)\<close>, which the format conversion \<^verbatim>\<open>!r\<close> applies\<close>
  "str_repr s = (let q = repr_quote s in [q] @ concat (map (repr_char q) s) @ [q])"

subsection \<open>Exceptions and JSON values\<close>

datatype py_exception =
  AttributeError | TypeError | KeyError | IndexError | ValueError | OverflowError

text \<open>
  What \<^verbatim>\<open>resp.json()\<close> returns: \<^verbatim>\<open>None\<close>, a bool, an int, a float, a str, a list or a
  dict with string keys. A float is a value of the type parameter \<open>'f\<close>: IEEE arithmetic is
  not modelled (see \<open>float_lib\<close> below). A dict is the list of its items in insertion
  order; \<open>map_of\<close> looks a key up.
\<close>

datatype 'f json =
    JNull
  | JBool bool
  | JInt int
  | JFloat 'f
  | JStr string
  | JList "'f json list"
  | JDict "(string \<times> 'f json) list"

definition is_dict :: "'f json \<Rightarrow> bool" where
  \<comment> \<open>\<^verbatim>\<open>isinstance(x, dict)\<close>\<close>
  "is_dict x = (case x of JDict _ \<Rightarrow> True | _ \<Rightarrow> False)"

definition py_contains :: "string \<Rightarrow> 'f json \<Rightarrow> py_exception + bool" where
  \<comment> \<open>\<^verbatim>\<open>key in x\<close> for a str key: membership of a dict's keys or of a list, substring of a str,
      \<^verbatim>\<open>TypeError\<close> on a value that is no container\<close>
  "py_contains key x = (case x of
       JDict kvs \<Rightarrow> Inr (map_of kvs key \<noteq> None)
     | JList xs \<Rightarrow> Inr (JStr key \<in> set xs)
     | JStr s \<Rightarrow> Inr (list_ex (\<lambda>i. take (length key) (drop i s) = key) [0..<Suc (length s)])
     | _ \<Rightarrow> Inl TypeError)"

definition py_getitem :: "'f json \<Rightarrow> string \<Rightarrow> py_exception + 'f json" where
  \<comment> \<open>\<^verbatim>\<open>x[key]\<close> for a str key: \<^verbatim>\<open>KeyError\<close> on a dict without it, \<^verbatim>\<open>TypeError\<close> elsewhere\<close>
  "py_getitem x key = (case x of
       JDict kvs \<Rightarrow> (case map_of kvs key of Some v \<Rightarrow> Inr v | None \<Rightarrow> Inl KeyError)
     | _ \<Rightarrow> Inl TypeError)"

subsection \<open>\<^verbatim>\<open>_safe_get\<close>\<close>

text \<open>
  \<^verbatim>\<open>
  def _safe_get(d, path):
      cur = d
      for key in path:
          if not isinstance(cur, dict) or key not in cur:
              return None
          cur = cur[key]
      return cur
  \<close>
  The loop is a recursion on the path; \<open>cur\<close> is the first argument. The \<^verbatim>\<open>or\<close> is
  short-circuit: \<^verbatim>\<open>key in cur\<close> is evaluated on a dict only.
\<close>

fun safe_get :: "'f json \<Rightarrow> string list \<Rightarrow> py_exception + 'f json" where
  "safe_get cur [] = Inr cur"
| "safe_get cur (key # path) =
     (if \<not> is_dict cur then Inr JNull
      else case py_contains key cur of
          Inl e \<Rightarrow> Inl e
        | Inr False \<Rightarrow> Inr JNull
        | Inr True \<Rightarrow> (case py_getitem cur key of Inl e \<Rightarrow> Inl e | Inr v \<Rightarrow> safe_get v path))"

text \<open>
  The contract of section 4.1 in the spec's words: the value at a path exists when every
  key on the way is present and every value on the way but the last is a mapping.
\<close>

fun value_at_path :: "'f json \<Rightarrow> string list \<Rightarrow> 'f json option" where
  "value_at_path v [] = Some v"
| "value_at_path (JDict kvs) (key # path) =
     (case map_of kvs key of None \<Rightarrow> None | Some v \<Rightarrow> value_at_path v path)"
| "value_at_path _ (key # path) = None"

subsection \<open>Calendar dates\<close>

text \<open>
  A \<^verbatim>\<open>datetime.date\<close> is modelled by its proleptic Gregorian ordinal
  (\<^verbatim>\<open>date.toordinal()\<close>: 1 is 0001-01-01, 719163 is 1970-01-01, 3652059 is
  9999-12-31, the last date there is). Comparing two dates is comparing their ordinals,
  and \<^verbatim>\<open>d + timedelta(days=n)\<close> is \<^verbatim>\<open>date.fromordinal(d.toordinal() + n)\<close>, which raises
  \<^verbatim>\<open>OverflowError\<close> outside the range. The conversions between ordinals and
  year, month and day follow \<^verbatim>\<open>_ymd2ord\<close> and \<^verbatim>\<open>_ord2ymd\<close> of the library's
  \<^verbatim>\<open>_pydatetime.py\<close>.
\<close>

type_synonym date = int

definition MINYEAR :: int where "MINYEAR = 1"
definition MAXYEAR :: int where "MAXYEAR = 9999"
definition MAXORDINAL :: int where "MAXORDINAL = 3652059"

definition is_leap :: "int \<Rightarrow> bool" where
  "is_leap y = (y mod 4 = 0 \<and> (y mod 100 \<noteq> 0 \<or> y mod 400 = 0))"

definition DAYS_IN_MONTH :: "int list" where
  "DAYS_IN_MONTH = [-1, 31, 28, 31, 30, 31, 30, 31, 31, 30, 31, 30, 31]"

definition DAYS_BEFORE_MONTH :: "int list" where
  "DAYS_BEFORE_MONTH = [-1, 0, 31, 59, 90, 120, 151, 181, 212, 243, 273, 304, 334]"

definition days_in_month :: "int \<Rightarrow> int \<Rightarrow> int" where
  "days_in_month y m = (if m = 2 \<and> is_leap y then 29 else DAYS_IN_MONTH ! nat m)"

definition days_before_year :: "int \<Rightarrow> int" where
  "days_before_year year = (let y = year - 1 in y * 365 + y div 4 - y div 100 + y div 400)"

definition days_before_month :: "int \<Rightarrow> int \<Rightarrow> int" where
  "days_before_month y m = DAYS_BEFORE_MONTH ! nat m + (if m > 2 \<and> is_leap y then 1 else 0)"

definition ymd2ord :: "int \<Rightarrow> int \<Rightarrow> int \<Rightarrow> date" where
  "ymd2ord y m d = days_before_year y + days_before_month y m + d"

definition ord2ymd :: "date \<Rightarrow> int \<times> int \<times> int" where
  "ord2ymd n0 =
     (let n = n0 - 1;
          n400 = n div 146097; n = n mod 146097;
          year = n400 * 400 + 1;
          n100 = n div 36524; n = n mod 36524;
          n4 = n div 1461; n = n mod 1461;
          n1 = n div 365; n = n mod 365;
          year = year + n100 * 100 + n4 * 4 + n1
      in if n1 = 4 \<or> n100 = 4 then (year - 1, 12, 31)
         else
           let leapyear = (n1 = 3 \<and> (n4 \<noteq> 24 \<or> n100 = 3));
               month = (n + 50) div 32;
               preceding = DAYS_BEFORE_MONTH ! nat month + (if month > 2 \<and> leapyear then 1 else 0)
           in if preceding > n
              then let month = month - 1;
                       preceding = preceding - (DAYS_IN_MONTH ! nat month + (if month = 2 \<and> leapyear then 1 else 0))
                   in (year, month, n - preceding + 1)
              else (year, month, n - preceding + 1))"

definition isoformat :: "date \<Rightarrow> string" where
  \<comment> \<open>\<^verbatim>\<open>"%04d-%02d-%02d" % (year, month, day)\<close>\<close>
  "isoformat t = (case ord2ymd t of (y, m, d) \<Rightarrow>
     zero_pad 4 y @ ''-'' @ zero_pad 2 m @ ''-'' @ zero_pad 2 d)"

definition date_add_days :: "date \<Rightarrow> int \<Rightarrow> py_exception + date" where
  \<comment> \<open>\<^verbatim>\<open>d + timedelta(days=n)\<close>\<close>
  "date_add_days d n = (if 0 < d + n \<and> d + n \<le> MAXORDINAL then Inr (d + n) else Inl OverflowError)"

subsection \<open>\<^verbatim>\<open>_parse_yyyy_mm_dd\<close>\<close>

text \<open>
  \<^verbatim>\<open>datetime.strptime(s, "%Y-%m-%d")\<close> matches \<open>s\<close> from its start against the regular
  expression that \<^verbatim>\<open>_strptime\<close> builds from the format,
  \<^verbatim>\<open>(?P<Y>\d\d\d\d)-(?P<m>1[0-2]|0[1-9]|[1-9])-(?P<d>3[0-1]|[1-2]\d|0[1-9]|[1-9]| [1-9])\<close>,
  raises \<^verbatim>\<open>ValueError\<close> when there is no match or when the match leaves text unread,
  and builds the date, which raises \<^verbatim>\<open>ValueError\<close> for the year 0 and for a day the
  month does not have. \<open>month_alts\<close> and \<open>day_alts\<close> list the ways a group can match a
  prefix, in the order of the alternatives; the match is the first combination that
  succeeds.
\<close>

definition in_range :: "char \<Rightarrow> char \<Rightarrow> char \<Rightarrow> bool" where
  "in_range lo hi c = ((of_char lo :: nat) \<le> of_char c \<and> (of_char c :: nat) \<le> of_char hi)"

definition is_digit :: "char \<Rightarrow> bool" where
  "is_digit c = in_range CHR ''0'' CHR ''9'' c"

definition digit_val :: "char \<Rightarrow> int" where
  "digit_val c = int (of_char c) - 48"

definition month_alts :: "string \<Rightarrow> (int \<times> string) list" where
  "month_alts s =
     (case s of
        a # b # r \<Rightarrow>
          (if a = CHR ''1'' \<and> in_range CHR ''0'' CHR ''2'' b then [(10 + digit_val b, r)] else []) @
          (if a = CHR ''0'' \<and> in_range CHR ''1'' CHR ''9'' b then [(digit_val b, r)] else [])
      | _ \<Rightarrow> []) @
     (case s of
        a # r \<Rightarrow> (if in_range CHR ''1'' CHR ''9'' a then [(digit_val a, r)] else [])
      | _ \<Rightarrow> [])"

definition day_alts :: "string \<Rightarrow> (int \<times> string) list" where
  "day_alts s =
     (case s of
        a # b # r \<Rightarrow>
          (if a = CHR ''3'' \<and> in_range CHR ''0'' CHR ''1'' b then [(30 + digit_val b, r)] else []) @
          (if in_range CHR ''1'' CHR ''2'' a \<and> is_digit b then [(10 * digit_val a + digit_val b, r)] else []) @
          (if a = CHR ''0'' \<and> in_range CHR ''1'' CHR ''9'' b then [(digit_val b, r)] else [])
      | _ \<Rightarrow> []) @
     (case s of
        a # r \<Rightarrow> (if in_range CHR ''1'' CHR ''9'' a then [(digit_val a, r)] else [])
      | _ \<Rightarrow> []) @
     (case s of
        a # b # r \<Rightarrow> (if a = CHR '' '' \<and> in_range CHR ''1'' CHR ''9'' b then [(digit_val b, r)] else [])
      | _ \<Rightarrow> [])"

definition match_ymd :: "string \<Rightarrow> (int \<times> int \<times> int \<times> string) option" where
  "match_ymd s =
     (case s of
        y1 # y2 # y3 # y4 # dash # r \<Rightarrow>
          if is_digit y1 \<and> is_digit y2 \<and> is_digit y3 \<and> is_digit y4 \<and> dash = CHR ''-''
          then
            let y = 1000 * digit_val y1 + 100 * digit_val y2 + 10 * digit_val y3 + digit_val y4;
                found = concat (map (\<lambda>(m, r1).
                          case r1 of
                            c # r2 \<Rightarrow> if c = CHR ''-'' then map (\<lambda>(d, r3). (y, m, d, r3)) (day_alts r2) else []
                          | [] \<Rightarrow> []) (month_alts r))
            in (case found of [] \<Rightarrow> None | x # _ \<Rightarrow> Some x)
          else None
      | _ \<Rightarrow> None)"

definition strptime_ymd :: "string \<Rightarrow> py_exception + date" where
  "strptime_ymd s =
     (case match_ymd s of
        None \<Rightarrow> Inl ValueError
      | Some (y, m, d, rest) \<Rightarrow>
          if rest \<noteq> [] then Inl ValueError
          else if y < MINYEAR \<or> MAXYEAR < y \<or> d < 1 \<or> days_in_month y m < d then Inl ValueError
          else Inr (ymd2ord y m d))"

text \<open>
  \<^verbatim>\<open>
  def _parse_yyyy_mm_dd(value):
      try:
          return datetime.strptime(value.strip(), "%Y-%m-%d").date()
      except Exception:
          return None
  \<close>
\<close>

definition parse_yyyy_mm_dd :: "string \<Rightarrow> date option" where
  "parse_yyyy_mm_dd v = (case strptime_ymd (str_strip v) of Inl _ \<Rightarrow> None | Inr d \<Rightarrow> Some d)"

subsection \<open>Floats\<close>

text \<open>
  A Python float is an IEEE double. Its arithmetic is not modelled: a float is a value
  of the type parameter \<open>'f\<close>, and the library routines on floats that the program calls
  are the fields of a record that the model takes as a parameter. Every theorem below
  holds for every such record.
\<close>

record 'f float_lib =
  float_of_int :: "int \<Rightarrow> py_exception + 'f"
    \<comment> \<open>\<^verbatim>\<open>float(n)\<close> of an int: the nearest double, \<^verbatim>\<open>OverflowError\<close> beyond the doubles\<close>
  float_is_true :: "'f \<Rightarrow> bool"
    \<comment> \<open>\<^verbatim>\<open>bool(x)\<close>: \<open>x\<close> is not zero\<close>
  format_1f :: "'f \<Rightarrow> string"
    \<comment> \<open>\<^verbatim>\<open>format(x, ".1f")\<close>\<close>
  fromtimestamp_utc :: "'f \<Rightarrow> py_exception + int"
    \<comment> \<open>\<^verbatim>\<open>datetime.fromtimestamp(x, tz=timezone.utc)\<close>, as microseconds since
        1970-01-01T00:00:00 UTC; an exception for a NaN, an infinity or an instant outside
        the years 1 to 9999\<close>

definition is_int_or_float :: "'f json \<Rightarrow> bool" where
  \<comment> \<open>\<^verbatim>\<open>isinstance(x, (int, float))\<close>; \<^verbatim>\<open>bool\<close> is a subclass of \<^verbatim>\<open>int\<close>\<close>
  "is_int_or_float x = (case x of JInt _ \<Rightarrow> True | JBool _ \<Rightarrow> True | JFloat _ \<Rightarrow> True | _ \<Rightarrow> False)"

definition is_int :: "'f json \<Rightarrow> bool" where
  \<comment> \<open>\<^verbatim>\<open>isinstance(x, int)\<close>\<close>
  "is_int x = (case x of JInt _ \<Rightarrow> True | JBool _ \<Rightarrow> True | _ \<Rightarrow> False)"

definition int_value :: "'f json \<Rightarrow> int" where
  \<comment> \<open>the value of an int; \<^verbatim>\<open>True\<close> is 1 and \<^verbatim>\<open>False\<close> is 0\<close>
  "int_value x = (case x of JInt n \<Rightarrow> n | JBool b \<Rightarrow> (if b then 1 else 0) | _ \<Rightarrow> 0)"

definition py_float :: "'f float_lib \<Rightarrow> 'f json \<Rightarrow> py_exception + 'f" where
  \<comment> \<open>\<^verbatim>\<open>float(x)\<close>\<close>
  "py_float L x = (case x of
       JFloat v \<Rightarrow> Inr v
     | JInt n \<Rightarrow> float_of_int L n
     | JBool b \<Rightarrow> float_of_int L (if b then 1 else 0)
     | _ \<Rightarrow> Inl TypeError)"

definition fmt_temp_c :: "'f float_lib \<Rightarrow> 'f \<Rightarrow> string" where
  \<comment> \<open>\<^verbatim>\<open>f"{temp_c:.1f}\<degree>C"\<close>; the degree sign is U+00B0\<close>
  "fmt_temp_c L temp_c = format_1f L temp_c @ [CHR 0xC2, CHR 0xB0] @ ''C''"

subsection \<open>More of Python's object protocol\<close>

definition py_truthy :: "'f float_lib \<Rightarrow> 'f json \<Rightarrow> bool" where
  \<comment> \<open>\<^verbatim>\<open>bool(x)\<close>\<close>
  "py_truthy L x = (case x of
       JNull \<Rightarrow> False
     | JBool b \<Rightarrow> b
     | JInt n \<Rightarrow> n \<noteq> 0
     | JFloat v \<Rightarrow> float_is_true L v
     | JStr s \<Rightarrow> s \<noteq> []
     | JList xs \<Rightarrow> xs \<noteq> []
     | JDict kvs \<Rightarrow> kvs \<noteq> [])"

definition py_get :: "'f json \<Rightarrow> string \<Rightarrow> 'f json \<Rightarrow> py_exception + 'f json" where
  \<comment> \<open>\<^verbatim>\<open>x.get(key, default)\<close>: a method of dicts, \<^verbatim>\<open>AttributeError\<close> on any other value\<close>
  "py_get x key dflt = (case x of
       JDict kvs \<Rightarrow> Inr (case map_of kvs key of Some v \<Rightarrow> v | None \<Rightarrow> dflt)
     | _ \<Rightarrow> Inl AttributeError)"

definition py_index0 :: "'f json \<Rightarrow> py_exception + 'f json" where
  \<comment> \<open>\<^verbatim>\<open>x[0]\<close>: the first element of a list, the first character of a str, \<^verbatim>\<open>KeyError\<close> on a
      dict (its keys are strings), \<^verbatim>\<open>TypeError\<close> on a value that cannot be indexed\<close>
  "py_index0 x = (case x of
       JList xs \<Rightarrow> (case xs of [] \<Rightarrow> Inl IndexError | y # _ \<Rightarrow> Inr y)
     | JStr s \<Rightarrow> (case s of [] \<Rightarrow> Inl IndexError | c # _ \<Rightarrow> Inr (JStr [c]))
     | JDict _ \<Rightarrow> Inl KeyError
     | _ \<Rightarrow> Inl TypeError)"

definition opt_truthy :: "string option \<Rightarrow> bool" where
  \<comment> \<open>\<^verbatim>\<open>bool(err)\<close> for \<^verbatim>\<open>err: str | None\<close>\<close>
  "opt_truthy err = (case err of None \<Rightarrow> False | Some s \<Rightarrow> s \<noteq> [])"

subsection \<open>\<^verbatim>\<open>_owm_request\<close>\<close>

text \<open>
  The HTTP client is outside the program. A transport maps the request that
  \<^verbatim>\<open>requests.get\<close> is called with to what the call does: it raises an exception (with
  its \<^verbatim>\<open>str()\<close>), or it returns a response with a status code, a body text and what
  \<^verbatim>\<open>resp.json()\<close> gives (a value, or an exception with its \<^verbatim>\<open>str()\<close>). Every call is
  appended to a log of requests, which the functions pass along.
\<close>

record request =
  url :: string
  params :: "(string \<times> string) list"
  timeout :: int

datatype 'f http_result =
    Raises string
  | Response int string "string + 'f json"

type_synonym 'f transport = "request \<Rightarrow> 'f http_result"

definition OPENWEATHER_BASE_URL :: string where
  "OPENWEATHER_BASE_URL = ''https://api.openweathermap.org/data/2.5''"

definition owm_request ::
  "'f transport \<Rightarrow> string \<Rightarrow> (string \<times> string) list \<Rightarrow> request list
    \<Rightarrow> ('f json \<times> string option) \<times> request list" where
  "owm_request net endpoint ps log =
     (let req = \<lparr>url = OPENWEATHER_BASE_URL @ ''/'' @ lstrip_slash endpoint, params = ps, timeout = 15\<rparr>
      in (case net req of
            Raises e \<Rightarrow> (JNull, Some (''Request failed: '' @ e))
          | Response status_code text js \<Rightarrow>
              if status_code \<ge> 400
              then (JNull, Some (''OpenWeatherMap error '' @ str_int status_code @ '': '' @ text))
              else (case js of
                      Inl e \<Rightarrow> (JNull, Some (''Request failed: '' @ e))
                    | Inr data \<Rightarrow> (data, None)),
          log @ [req]))"

subsection \<open>Temperature and description of one weather record\<close>

text \<open>
  Both paths end with the same statements, on \<^verbatim>\<open>data\<close> in the current path and on
  \<^verbatim>\<open>best\<close> in the forecast path:
  \<^verbatim>\<open>
      desc = None
      try:
          weather_list = data.get("weather", [])
          if weather_list and isinstance(weather_list[0], dict):
              desc = weather_list[0].get("description")
      except Exception:
          desc = None
  \<close>
\<close>

definition description_of :: "'f float_lib \<Rightarrow> 'f json \<Rightarrow> 'f json" where
  "description_of L data =
     (case py_get data ''weather'' (JList []) of
        Inl e \<Rightarrow> JNull
      | Inr weather_list \<Rightarrow>
          if \<not> py_truthy L weather_list then JNull
          else (case py_index0 weather_list of
                  Inl e \<Rightarrow> JNull
                | Inr w \<Rightarrow>
                    if \<not> is_dict w then JNull
                    else (case py_get w ''description'' JNull of Inl e \<Rightarrow> JNull | Inr desc \<Rightarrow> desc)))"

text \<open>
  \<^verbatim>\<open>
      if not isinstance(temp, (int, float)):
          return None, None, "<missing>"
      if not isinstance(desc, str) or not desc.strip():
          desc = "Unknown conditions"
      return float(temp), desc, None
  \<close>
\<close>

type_synonym 'f weather = "'f option \<times> string option \<times> string option"

definition conditions_of :: "'f json \<Rightarrow> string" where
  "conditions_of desc = (case desc of
       JStr s \<Rightarrow> (if str_strip s = [] then ''Unknown conditions'' else s)
     | _ \<Rightarrow> ''Unknown conditions'')"

definition temp_and_conditions ::
  "'f float_lib \<Rightarrow> string \<Rightarrow> 'f json \<Rightarrow> 'f json \<Rightarrow> py_exception + 'f weather" where
  "temp_and_conditions L missing temp desc =
     (if \<not> is_int_or_float temp then Inr (None, None, Some missing)
      else (case py_float L temp of
              Inl e \<Rightarrow> Inl e
            | Inr t \<Rightarrow> Inr (Some t, Some (conditions_of desc), None)))"

text \<open>
  With \<^verbatim>\<open>temp = _safe_get(data, ["main", "temp"])\<close> before them, these are the last
  statements of both paths; \<open>missing\<close> is the message of the path.
\<close>

definition entry_weather :: "'f float_lib \<Rightarrow> string \<Rightarrow> 'f json \<Rightarrow> py_exception + 'f weather" where
  "entry_weather L missing data =
     (case safe_get data [''main'', ''temp''] of
        Inl e \<Rightarrow> Inl e
      | Inr temp \<Rightarrow> temp_and_conditions L missing temp (description_of L data))"

subsection \<open>\<^verbatim>\<open>_weather_from_current\<close>\<close>

definition owm_params :: "string \<Rightarrow> string \<Rightarrow> (string \<times> string) list" where
  \<comment> \<open>\<^verbatim>\<open>{"q": city, "appid": api_key, "units": "metric"}\<close>\<close>
  "owm_params city api_key = [(''q'', city), (''appid'', api_key), (''units'', ''metric'')]"

definition weather_from_current ::
  "'f float_lib \<Rightarrow> 'f transport \<Rightarrow> string \<Rightarrow> string \<Rightarrow> request list
    \<Rightarrow> (py_exception + 'f weather) \<times> request list" where
  "weather_from_current L net city api_key log =
     (case owm_request net ''weather'' (owm_params city api_key) log of
        ((data, err), log') \<Rightarrow>
          if opt_truthy err then (Inr (None, None, err), log')
          else (entry_weather L ''Unexpected OpenWeatherMap response: missing temperature'' data, log'))"

subsection \<open>\<^verbatim>\<open>_weather_from_forecast\<close>\<close>

text \<open>
  An aware \<^verbatim>\<open>datetime\<close> in the feed's timezone is modelled by its wall-clock time there,
  in microseconds since 1970-01-01T00:00:00 (of that clock). All datetimes the function
  compares are in that one timezone.
\<close>

definition US_PER_SECOND :: int where "US_PER_SECOND = 1000000"
definition US_PER_DAY :: int where "US_PER_DAY = 86400 * 1000000"
definition EPOCH_ORDINAL :: int where "EPOCH_ORDINAL = 719163"

definition MIN_DATETIME :: int where
  \<comment> \<open>\<^verbatim>\<open>datetime.min\<close>, 0001-01-01T00:00:00\<close>
  "MIN_DATETIME = (1 - EPOCH_ORDINAL) * US_PER_DAY"

definition MAX_DATETIME :: int where
  \<comment> \<open>\<^verbatim>\<open>datetime.max\<close>, 9999-12-31T23:59:59.999999\<close>
  "MAX_DATETIME = (MAXORDINAL + 1 - EPOCH_ORDINAL) * US_PER_DAY - 1"

definition tz_offset_seconds :: "'f json \<Rightarrow> py_exception + int" where
  \<comment> \<open>\<^verbatim>\<open>tz_offset_seconds = _safe_get(data, ["city", "timezone"])\<close>, and 0 when that is no int\<close>
  "tz_offset_seconds data =
     (case safe_get data [''city'', ''timezone''] of
        Inl e \<Rightarrow> Inl e
      | Inr v \<Rightarrow> Inr (if \<not> is_int v then 0 else int_value v))"

definition make_timezone :: "int \<Rightarrow> py_exception + int" where
  \<comment> \<open>\<^verbatim>\<open>timezone(timedelta(seconds=n))\<close>: a \<^verbatim>\<open>timedelta\<close> has at most 999999999 days, and the
      offset of a \<^verbatim>\<open>timezone\<close> is strictly between -24 and 24 hours\<close>
  "make_timezone n =
     (if n div 86400 < - 999999999 \<or> 999999999 < n div 86400 then Inl OverflowError
      else if - 86400 < n \<and> n < 86400 then Inr n
      else Inl ValueError)"

definition local_datetime :: "'f float_lib \<Rightarrow> int \<Rightarrow> 'f json \<Rightarrow> py_exception + int" where
  \<comment> \<open>\<^verbatim>\<open>datetime.fromtimestamp(float(dt_unix), tz=timezone.utc).astimezone(tz)\<close>; the last
      step adds the offset and raises \<^verbatim>\<open>OverflowError\<close> outside the datetimes\<close>
  "local_datetime L tz dt_unix =
     (case py_float L dt_unix of
        Inl e \<Rightarrow> Inl e
      | Inr x \<Rightarrow>
          (case fromtimestamp_utc L x of
             Inl e \<Rightarrow> Inl e
           | Inr utc \<Rightarrow>
               let local = utc + tz * US_PER_SECOND
               in if MIN_DATETIME \<le> local \<and> local \<le> MAX_DATETIME then Inr local else Inl OverflowError))"

definition date_of :: "int \<Rightarrow> date" where
  \<comment> \<open>\<^verbatim>\<open>local_dt.date()\<close>\<close>
  "date_of local_dt = local_dt div US_PER_DAY + EPOCH_ORDINAL"

definition noon_of :: "date \<Rightarrow> int" where
  \<comment> \<open>\<^verbatim>\<open>datetime(target_date.year, target_date.month, target_date.day, 12, 0, tzinfo=tz)\<close>\<close>
  "noon_of target_date = (target_date - EPOCH_ORDINAL) * US_PER_DAY + 12 * 3600 * US_PER_SECOND"

definition delta_to :: "int \<Rightarrow> int \<Rightarrow> int" where
  \<comment> \<open>\<^verbatim>\<open>abs((local_dt - noon).total_seconds())\<close>, in microseconds\<close>
  "delta_to noon local_dt = \<bar>local_dt - noon\<bar>"

text \<open>
  \<^verbatim>\<open>total_seconds()\<close> divides the whole number of microseconds by \<open>10\<^sup>6\<close> and rounds to
  a double. The program computes it only for an entry on the target date, which is less
  than 12 hours from noon: up to there the division is strictly increasing, so comparing
  two such deltas with \<^verbatim>\<open><\<close> is comparing the microseconds.

  \<^verbatim>\<open>
      best = None
      best_delta = None
      for item in entries:
          if not isinstance(item, dict):
              continue
          dt_unix = item.get("dt")
          if not isinstance(dt_unix, (int, float)):
              continue
          local_dt = datetime.fromtimestamp(float(dt_unix), tz=timezone.utc).astimezone(tz)
          if local_dt.date() != target_date:
              continue
          delta = abs((local_dt - noon).total_seconds())
          if best_delta is None or delta < best_delta:
              best_delta = delta
              best = item
  \<close>
\<close>

fun scan_entries ::
  "'f float_lib \<Rightarrow> int \<Rightarrow> date \<Rightarrow> 'f json list \<Rightarrow> 'f json option \<Rightarrow> int option
    \<Rightarrow> py_exception + ('f json option \<times> int option)" where
  "scan_entries L tz target_date [] best best_delta = Inr (best, best_delta)"
| "scan_entries L tz target_date (item # entries) best best_delta =
     (if \<not> is_dict item then scan_entries L tz target_date entries best best_delta
      else (case py_get item ''dt'' JNull of
              Inl e \<Rightarrow> Inl e
            | Inr dt_unix \<Rightarrow>
                if \<not> is_int_or_float dt_unix then scan_entries L tz target_date entries best best_delta
                else (case local_datetime L tz dt_unix of
                        Inl e \<Rightarrow> Inl e
                      | Inr local_dt \<Rightarrow>
                          if date_of local_dt \<noteq> target_date
                          then scan_entries L tz target_date entries best best_delta
                          else
                            let delta = delta_to (noon_of target_date) local_dt
                            in if (case best_delta of None \<Rightarrow> True | Some b \<Rightarrow> delta < b)
                               then scan_entries L tz target_date entries (Some item) (Some delta)
                               else scan_entries L tz target_date entries best best_delta)))"

definition pick_best :: "'f float_lib \<Rightarrow> int \<Rightarrow> date \<Rightarrow> 'f json list \<Rightarrow> py_exception + 'f json option" where
  \<comment> \<open>the value of \<^verbatim>\<open>best\<close> after the loop\<close>
  "pick_best L tz target_date entries =
     (case scan_entries L tz target_date entries None None of
        Inl e \<Rightarrow> Inl e
      | Inr (best, best_delta) \<Rightarrow> Inr best)"

definition with_fallback :: "'f json option \<Rightarrow> 'f json list \<Rightarrow> 'f json option" where
  \<comment> \<open>\<^verbatim>\<open>if best is None: best = entries[0] if isinstance(entries[0], dict) else None\<close>, on a
      list that is not empty\<close>
  "with_fallback best entries =
     (case best of
        Some b \<Rightarrow> Some b
      | None \<Rightarrow> (case entries of e0 # _ \<Rightarrow> (if is_dict e0 then Some e0 else None) | [] \<Rightarrow> None))"

text \<open>
  From the parsed response to the entry the weather is read from (the statements between
  the request and \<^verbatim>\<open>temp = _safe_get(best, ["main", "temp"])\<close>). The result is the
  exception raised, or the message of an early \<^verbatim>\<open>return None, None, "..."\<close>, or the
  entry \<^verbatim>\<open>best\<close>.
\<close>

definition forecast_entry ::
  "'f float_lib \<Rightarrow> 'f json \<Rightarrow> date \<Rightarrow> py_exception + (string + 'f json)" where
  "forecast_entry L data target_date =
     (case tz_offset_seconds data of
        Inl e \<Rightarrow> Inl e
      | Inr offset \<Rightarrow>
     (case make_timezone offset of
        Inl e \<Rightarrow> Inl e
      | Inr tz \<Rightarrow>
     (case py_get data ''list'' (JList []) of
        Inl e \<Rightarrow> Inl e
      | Inr (JList (e0 # es)) \<Rightarrow>
          (case pick_best L tz target_date (e0 # es) of
             Inl e \<Rightarrow> Inl e
           | Inr best \<Rightarrow>
               (case with_fallback best (e0 # es) of
                  None \<Rightarrow> Inr (Inl ''Unexpected OpenWeatherMap response: invalid forecast entry'')
                | Some b \<Rightarrow> Inr (Inr b)))
      | Inr _ \<Rightarrow> Inr (Inl ''Unexpected OpenWeatherMap response: missing forecast list''))))"

definition weather_from_forecast ::
  "'f float_lib \<Rightarrow> 'f transport \<Rightarrow> string \<Rightarrow> string \<Rightarrow> date \<Rightarrow> request list
    \<Rightarrow> (py_exception + 'f weather) \<times> request list" where
  "weather_from_forecast L net city api_key target_date log =
     (case owm_request net ''forecast'' (owm_params city api_key) log of
        ((data, err), log') \<Rightarrow>
          if opt_truthy err then (Inr (None, None, err), log')
          else (case forecast_entry L data target_date of
                  Inl e \<Rightarrow> (Inl e, log')
                | Inr (Inl message) \<Rightarrow> (Inr (None, None, Some message), log')
                | Inr (Inr best) \<Rightarrow>
                    (entry_weather L ''Unexpected OpenWeatherMap response: missing forecast temperature''
                       best, log')))"

text \<open>
  A float library for the examples: the doubles that are whole numbers of magnitude at
  most \<open>2\<^sup>5\<^sup>3\<close>, each written as that whole number. On them CPython computes what the
  fields say (beyond \<open>2\<^sup>5\<^sup>3\<close> \<^verbatim>\<open>float(n)\<close> rounds, where this library raises). The year 1
  starts 62135596800 seconds before the epoch and the year 9999 ends 253402300800 seconds
  after it.
\<close>

definition whole_floats :: "int float_lib" where
  "whole_floats =
     \<lparr>float_of_int = (\<lambda>n. if \<bar>n\<bar> \<le> 2 ^ 53 then Inr n else Inl OverflowError),
      float_is_true = (\<lambda>x. x \<noteq> 0),
      format_1f = (\<lambda>x. str_int x @ ''.0''),
      fromtimestamp_utc =
        (\<lambda>x. if - 62135596800 \<le> x \<and> x < 253402300800 then Inr (x * 1000000) else Inl ValueError)\<rparr>"

subsection \<open>\<^verbatim>\<open>get_weather_impl\<close>\<close>

text \<open>
  The function reads two things from outside: the process environment (a map from
  variable names to values) and the current UTC date, \<^verbatim>\<open>datetime.now(timezone.utc).date()\<close>.
  Both are arguments of the model. It returns what the Python function returns or the
  exception it raises, and the log of the requests it sent.
\<close>

definition in_forecast_window :: "date \<Rightarrow> date \<Rightarrow> py_exception + bool" where
  \<comment> \<open>\<^verbatim>\<open>today <= target <= (today + timedelta(days=5))\<close>: the sum is evaluated only when the
      first comparison holds\<close>
  "in_forecast_window today target =
     (if \<not> today \<le> target then Inr False
      else (case date_add_days today 5 of Inl e \<Rightarrow> Inl e | Inr end_date \<Rightarrow> Inr (target \<le> end_date)))"

definition api_key_of :: "(string \<rightharpoonup> string) \<Rightarrow> string" where
  \<comment> \<open>\<^verbatim>\<open>os.environ.get("OPENWEATHER_API_KEY", "").strip()\<close>\<close>
  "api_key_of env = str_strip (case env ''OPENWEATHER_API_KEY'' of Some v \<Rightarrow> v | None \<Rightarrow> [])"

definition unavailable_message :: "string \<Rightarrow> string \<Rightarrow> string" where
  "unavailable_message city date =
     ''Weather lookup unavailable: missing OPENWEATHER_API_KEY environment variable.'' @ [CHR 0x0A] @
     ''Input: city='' @ str_repr city @ '', date='' @ str_repr date"

definition invalid_date_message :: string where
  "invalid_date_message = ''Invalid date format. Please use YYYY-MM-DD.''"

definition get_weather_impl ::
  "'f float_lib \<Rightarrow> (string \<rightharpoonup> string) \<Rightarrow> date \<Rightarrow> 'f transport \<Rightarrow> string \<Rightarrow> string
    \<Rightarrow> (py_exception + string) \<times> request list" where
  "get_weather_impl L env today net city date =
     (let api_key = api_key_of env in
      if api_key = [] then (Inr (unavailable_message city date), [])
      else (case parse_yyyy_mm_dd date of
         None \<Rightarrow> (Inr invalid_date_message, [])
       | Some target \<Rightarrow>
      (case in_forecast_window today target of
         Inl e \<Rightarrow> (Inl e, [])
       | Inr in_window \<Rightarrow>
           let (res, log) = (if in_window then weather_from_forecast L net city api_key target []
                             else weather_from_current L net city api_key []);
               source = (if in_window then ''forecast'' else ''current'')
           in (case res of
                 Inl e \<Rightarrow> (Inl e, log)
               | Inr (temp_c, conditions, err) \<Rightarrow>
                   if opt_truthy err
                   then (Inr (''Weather lookup failed for '' @ city @ '' on '' @ isoformat target @
                              '' ('' @ source @ ''): '' @ (case err of Some e \<Rightarrow> e | None \<Rightarrow> [])), log)
                   else (case (temp_c, conditions) of
                           (Some t, Some c) \<Rightarrow>
                             (Inr (''Weather for '' @ city @ '' on '' @ isoformat target @
                                   '' ('' @ source @ ''): '' @ fmt_temp_c L t @ '', '' @ c @ ''.''), log)
                         | _ \<Rightarrow>
                             (Inr (''Weather lookup failed for '' @ city @ '' on '' @ isoformat target @
                                   '' ('' @ source @ ''): unexpected response''), log))))))"

subsection \<open>The mock travel catalog\<close>











section \<open>Notions the properties are stated with\<close>

text \<open>
  What the loop of the forecast path does with one entry: it skips it (\<open>None\<close>) when it
  is no dict or its \<^verbatim>\<open>dt\<close> is no number, it raises when the timestamp has no datetime
  in the feed's timezone, and otherwise it has the local datetime of the entry.
\<close>

definition entry_time :: "'f float_lib \<Rightarrow> int \<Rightarrow> 'f json \<Rightarrow> (py_exception + int) option" where
  "entry_time L tz item =
     (if \<not> is_dict item then None
      else (case py_get item ''dt'' JNull of
              Inl e \<Rightarrow> Some (Inl e)
            | Inr dt_unix \<Rightarrow> if \<not> is_int_or_float dt_unix then None else Some (local_datetime L tz dt_unix)))"

definition readable :: "'f float_lib \<Rightarrow> int \<Rightarrow> 'f json \<Rightarrow> bool" where
  \<comment> \<open>the loop does not raise on the entry\<close>
  "readable L tz item = (case entry_time L tz item of Some (Inl e) \<Rightarrow> False | _ \<Rightarrow> True)"

definition on_date :: "'f float_lib \<Rightarrow> int \<Rightarrow> date \<Rightarrow> 'f json \<Rightarrow> bool" where
  \<comment> \<open>the local calendar date of the entry is the target date\<close>
  "on_date L tz target item =
     (case entry_time L tz item of Some (Inr local_dt) \<Rightarrow> date_of local_dt = target | _ \<Rightarrow> False)"

definition noon_distance :: "'f float_lib \<Rightarrow> int \<Rightarrow> date \<Rightarrow> 'f json \<Rightarrow> int" where
  \<comment> \<open>the absolute distance, in microseconds, of the entry's local time to 12:00 on the target date\<close>
  "noon_distance L tz target item =
     (case entry_time L tz item of Some (Inr local_dt) \<Rightarrow> delta_to (noon_of target) local_dt | _ \<Rightarrow> 0)"

definition resolved_together :: "'f weather \<Rightarrow> bool" where
  \<comment> \<open>a temperature with a condition text that is not blank and no error, or an error
      message alone\<close>
  "resolved_together r =
     (case r of
        (Some t, Some c, None) \<Rightarrow> str_strip c \<noteq> []
      | (None, None, Some e) \<Rightarrow> e \<noteq> []
      | _ \<Rightarrow> False)"

definition owm_call :: "string \<Rightarrow> string \<Rightarrow> string \<Rightarrow> request" where
  \<comment> \<open>the request either path sends: the endpoint is \<^verbatim>\<open>weather\<close> or \<^verbatim>\<open>forecast\<close>\<close>
  "owm_call endpoint city api_key =
     \<lparr>url = ''https://api.openweathermap.org/data/2.5/'' @ endpoint,
      params = [(''q'', city), (''appid'', api_key), (''units'', ''metric'')],
      timeout = 15\<rparr>"


section \<open>Example inputs\<close>

text \<open>
  The environment has the credential. The feed is three hours apart, in a timezone nine
  hours ahead of UTC: 1893456000 is 2030-01-01T00:00:00 UTC, which is 09:00 there.
  The ordinal of 2030-01-01 is 741078.
\<close>

definition example_env :: "string \<rightharpoonup> string" where
  "example_env = [''OPENWEATHER_API_KEY'' \<mapsto> ''k3y'']"

definition example_entry :: "int \<Rightarrow> int \<Rightarrow> int json" where
  "example_entry dt_unix temp =
     JDict [(''dt'', JInt dt_unix),
            (''main'', JDict [(''temp'', JInt temp)]),
            (''weather'', JList [JDict [(''description'', JStr ''clear sky'')]])]"

definition example_forecast :: "int json" where
  "example_forecast =
     JDict [(''city'', JDict [(''name'', JStr ''Tokyo''), (''timezone'', JInt 32400)]),
            (''list'', JList [example_entry 1893456000 4,
                              example_entry 1893466800 9,
                              example_entry 1893477600 8,
                              example_entry 1893542400 3])]"

definition example_current :: "int json" where
  "example_current =
     JDict [(''main'', JDict [(''temp'', JInt 7)]),
            (''weather'', JList [JDict [(''description'', JStr ''light rain'')]])]"

definition example_net :: "int transport" where
  "example_net req =
     (if url req = ''https://api.openweathermap.org/data/2.5/forecast''
      then Response 200 [] (Inr example_forecast)
      else Response 200 [] (Inr example_current))"

section \<open>Auxiliary facts\<close>

lemma safe_get_value:
  "safe_get d path = Inr (case value_at_path d path of Some v \<Rightarrow> v | None \<Rightarrow> JNull)"
proof (induction d path rule: value_at_path.induct)
  case (2 kvs key path)
  then show ?case
    by (cases "map_of kvs key") (simp_all add: is_dict_def py_contains_def py_getitem_def)
qed (simp_all add: is_dict_def)

lemma scan_step:
  "scan_entries L tz T (item # es) b bd =
     (case entry_time L tz item of
        None \<Rightarrow> scan_entries L tz T es b bd
      | Some (Inl e) \<Rightarrow> Inl e
      | Some (Inr t) \<Rightarrow>
          if date_of t \<noteq> T then scan_entries L tz T es b bd
          else if (case bd of None \<Rightarrow> True | Some d \<Rightarrow> delta_to (noon_of T) t < d)
               then scan_entries L tz T es (Some item) (Some (delta_to (noon_of T) t))
               else scan_entries L tz T es b bd)"
  by (simp add: entry_time_def Let_def split: sum.splits)

declare scan_entries.simps(2) [simp del]

lemma scan_skip:
  assumes "readable L tz item" "\<not> on_date L tz T item"
  shows "scan_entries L tz T (item # es) b bd = scan_entries L tz T es b bd"
  using assms by (auto simp add: scan_step readable_def on_date_def split: option.splits sum.splits)

lemma scan_none:
  assumes "\<forall>x\<in>set es. readable L tz x" "\<forall>x\<in>set es. \<not> on_date L tz T x"
  shows "scan_entries L tz T es b bd = Inr (b, bd)"
  using assms by (induction es) (simp_all add: scan_skip)


lemma scan_pick:
  assumes "\<forall>x\<in>set es. readable L tz x"
    and "case bd of None \<Rightarrow> b = None | Some d \<Rightarrow> b \<noteq> None"
  shows "(\<exists>pre x post. es = pre @ x # post \<and> on_date L tz T x
            \<and> scan_entries L tz T es b bd = Inr (Some x, Some (noon_distance L tz T x))
            \<and> (\<forall>y\<in>set pre. on_date L tz T y \<longrightarrow> noon_distance L tz T x < noon_distance L tz T y)
            \<and> (\<forall>y\<in>set post. on_date L tz T y \<longrightarrow> noon_distance L tz T x \<le> noon_distance L tz T y)
            \<and> (case bd of None \<Rightarrow> True | Some d \<Rightarrow> noon_distance L tz T x < d))
       \<or> (scan_entries L tz T es b bd = Inr (b, bd)
            \<and> (\<forall>y\<in>set es. on_date L tz T y \<longrightarrow> (case bd of None \<Rightarrow> False | Some d \<Rightarrow> d \<le> noon_distance L tz T y)))"
  using assms
proof (induction es arbitrary: b bd)
  case Nil
  then show ?case by simp
next
  case (Cons item es)
  have rd: "readable L tz item" and rest: "\<forall>x\<in>set es. readable L tz x"
    using Cons.prems(1) by simp_all
  show ?case
  proof (cases "on_date L tz T item")
    case False
    from Cons.IH[OF rest Cons.prems(2)]
    show ?thesis
    proof (elim disjE exE conjE)
      fix pre x post
      assume h: "es = pre @ x # post" "on_date L tz T x"
        "scan_entries L tz T es b bd = Inr (Some x, Some (noon_distance L tz T x))"
        "\<forall>y\<in>set pre. on_date L tz T y \<longrightarrow> noon_distance L tz T x < noon_distance L tz T y"
        "\<forall>y\<in>set post. on_date L tz T y \<longrightarrow> noon_distance L tz T x \<le> noon_distance L tz T y"
        "case bd of None \<Rightarrow> True | Some d \<Rightarrow> noon_distance L tz T x < d"
      have "item # es = (item # pre) @ x # post" using h(1) by simp
      moreover have "\<forall>y\<in>set (item # pre). on_date L tz T y \<longrightarrow> noon_distance L tz T x < noon_distance L tz T y"
        using h(4) False by simp
      moreover have "scan_entries L tz T (item # es) b bd = Inr (Some x, Some (noon_distance L tz T x))"
        using h(3) scan_skip[OF rd False] by simp
      ultimately show ?thesis using h(2,5,6) by blast
    next
      assume h: "scan_entries L tz T es b bd = Inr (b, bd)"
        "\<forall>y\<in>set es. on_date L tz T y \<longrightarrow> (case bd of None \<Rightarrow> False | Some d \<Rightarrow> d \<le> noon_distance L tz T y)"
      have "scan_entries L tz T (item # es) b bd = Inr (b, bd)"
        using h(1) scan_skip[OF rd False] by simp
      then show ?thesis using h(2) False by simp
    qed
  next
    case True
    then obtain t where t: "entry_time L tz item = Some (Inr t)" "date_of t = T"
      by (auto simp: on_date_def split: option.splits sum.splits)
    have nd: "noon_distance L tz T item = delta_to (noon_of T) t"
      using t by (simp add: noon_distance_def)
    show ?thesis
    proof (cases "case bd of None \<Rightarrow> True | Some d \<Rightarrow> noon_distance L tz T item < d")
      case better: True
      have step: "scan_entries L tz T (item # es) b bd
                  = scan_entries L tz T es (Some item) (Some (noon_distance L tz T item))"
        using t better by (cases bd) (simp_all add: scan_step nd)
      have acc: "case Some (noon_distance L tz T item) of None \<Rightarrow> Some item = None | Some d \<Rightarrow> Some item \<noteq> None"
        by simp
      from Cons.IH[OF rest acc]
      show ?thesis
      proof (elim disjE exE conjE)
        fix pre x post
        assume h: "es = pre @ x # post" "on_date L tz T x"
          "scan_entries L tz T es (Some item) (Some (noon_distance L tz T item)) = Inr (Some x, Some (noon_distance L tz T x))"
          "\<forall>y\<in>set pre. on_date L tz T y \<longrightarrow> noon_distance L tz T x < noon_distance L tz T y"
          "\<forall>y\<in>set post. on_date L tz T y \<longrightarrow> noon_distance L tz T x \<le> noon_distance L tz T y"
          "case Some (noon_distance L tz T item) of None \<Rightarrow> True | Some d \<Rightarrow> noon_distance L tz T x < d"
        have lt: "noon_distance L tz T x < noon_distance L tz T item" using h(6) by simp
        have "item # es = (item # pre) @ x # post" using h(1) by simp
        moreover have "\<forall>y\<in>set (item # pre). on_date L tz T y \<longrightarrow> noon_distance L tz T x < noon_distance L tz T y"
          using h(4) lt by simp
        moreover have "scan_entries L tz T (item # es) b bd = Inr (Some x, Some (noon_distance L tz T x))"
          using h(3) step by simp
        moreover have "case bd of None \<Rightarrow> True | Some d \<Rightarrow> noon_distance L tz T x < d"
          using better lt by (cases bd) simp_all
        ultimately show ?thesis using h(2,5) by blast
      next
        assume h: "scan_entries L tz T es (Some item) (Some (noon_distance L tz T item)) = Inr (Some item, Some (noon_distance L tz T item))"
          "\<forall>y\<in>set es. on_date L tz T y \<longrightarrow> (case Some (noon_distance L tz T item) of None \<Rightarrow> False | Some d \<Rightarrow> d \<le> noon_distance L tz T y)"
        have "item # es = [] @ item # es" by simp
        moreover have "scan_entries L tz T (item # es) b bd = Inr (Some item, Some (noon_distance L tz T item))"
          using h(1) step by simp
        moreover have "\<forall>y\<in>set es. on_date L tz T y \<longrightarrow> noon_distance L tz T item \<le> noon_distance L tz T y"
          using h(2) by simp
        moreover have "\<forall>y\<in>set ([]::'a json list). on_date L tz T y \<longrightarrow> noon_distance L tz T item < noon_distance L tz T y"
          by simp
        ultimately show ?thesis using True better by blast
      qed
    next
      case worse: False
      then obtain d where d: "bd = Some d" "d \<le> noon_distance L tz T item"
        by (cases bd) auto
      have step: "scan_entries L tz T (item # es) b bd = scan_entries L tz T es b bd"
        using t d by (simp add: scan_step nd)
      from Cons.IH[OF rest Cons.prems(2)]
      show ?thesis
      proof (elim disjE exE conjE)
        fix pre x post
        assume h: "es = pre @ x # post" "on_date L tz T x"
          "scan_entries L tz T es b bd = Inr (Some x, Some (noon_distance L tz T x))"
          "\<forall>y\<in>set pre. on_date L tz T y \<longrightarrow> noon_distance L tz T x < noon_distance L tz T y"
          "\<forall>y\<in>set post. on_date L tz T y \<longrightarrow> noon_distance L tz T x \<le> noon_distance L tz T y"
          "case bd of None \<Rightarrow> True | Some d \<Rightarrow> noon_distance L tz T x < d"
        have lt: "noon_distance L tz T x < noon_distance L tz T item" using h(6) d by simp
        have "item # es = (item # pre) @ x # post" using h(1) by simp
        moreover have "\<forall>y\<in>set (item # pre). on_date L tz T y \<longrightarrow> noon_distance L tz T x < noon_distance L tz T y"
          using h(4) lt by simp
        moreover have "scan_entries L tz T (item # es) b bd = Inr (Some x, Some (noon_distance L tz T x))"
          using h(3) step by simp
        ultimately show ?thesis using h(2,5,6) by blast
      next
        assume h: "scan_entries L tz T es b bd = Inr (b, bd)"
          "\<forall>y\<in>set es. on_date L tz T y \<longrightarrow> (case bd of None \<Rightarrow> False | Some d \<Rightarrow> d \<le> noon_distance L tz T y)"
        have "scan_entries L tz T (item # es) b bd = Inr (b, bd)" using h(1) step by simp
        then show ?thesis using h(2) d by simp
      qed
    qed
  qed
qed


lemma pick_best_some:
  assumes "\<forall>x\<in>set es. readable L tz x" and "\<exists>x\<in>set es. on_date L tz T x"
  shows "\<exists>pre x post. es = pre @ x # post \<and> on_date L tz T x
            \<and> pick_best L tz T es = Inr (Some x)
            \<and> (\<forall>y\<in>set pre. on_date L tz T y \<longrightarrow> noon_distance L tz T x < noon_distance L tz T y)
            \<and> (\<forall>y\<in>set post. on_date L tz T y \<longrightarrow> noon_distance L tz T x \<le> noon_distance L tz T y)"
proof -
  have acc: "case (None :: int option) of None \<Rightarrow> (None :: 'a json option) = None | Some d \<Rightarrow> (None :: 'a json option) \<noteq> None"
    by simp
  from scan_pick[OF assms(1) acc, of T]
  show ?thesis
  proof (elim disjE exE conjE)
    fix pre x post
    assume h: "es = pre @ x # post" "on_date L tz T x"
      "scan_entries L tz T es None None = Inr (Some x, Some (noon_distance L tz T x))"
      "\<forall>y\<in>set pre. on_date L tz T y \<longrightarrow> noon_distance L tz T x < noon_distance L tz T y"
      "\<forall>y\<in>set post. on_date L tz T y \<longrightarrow> noon_distance L tz T x \<le> noon_distance L tz T y"
    have "pick_best L tz T es = Inr (Some x)" using h(3) by (simp add: pick_best_def)
    with h show ?thesis by blast
  next
    assume "\<forall>y\<in>set es. on_date L tz T y \<longrightarrow> (case (None :: int option) of None \<Rightarrow> False | Some d \<Rightarrow> d \<le> noon_distance L tz T y)"
    then have "\<forall>y\<in>set es. \<not> on_date L tz T y" by simp
    with assms(2) show ?thesis by blast
  qed
qed

lemma pick_best_none:
  assumes "\<forall>x\<in>set es. readable L tz x" and "\<forall>x\<in>set es. \<not> on_date L tz T x"
  shows "pick_best L tz T es = Inr None"
  using scan_none[OF assms] by (simp add: pick_best_def)

lemma make_timezone_ok:
  assumes "- 86400 < tz" "tz < 86400"
  shows "make_timezone tz = Inr tz"
proof -
  have "(- 86400) div 86400 \<le> tz div (86400 :: int)"
    by (rule zdiv_mono1) (use assms in simp_all)
  moreover have "tz div 86400 \<le> 86399 div (86400 :: int)"
    by (rule zdiv_mono1) (use assms in simp_all)
  ultimately have "- 1 \<le> tz div 86400" "tz div 86400 \<le> 0"
    by simp_all
  then show ?thesis using assms by (simp add: make_timezone_def)
qed

lemma forecast_entry_some:
  assumes "tz_offset_seconds data = Inr tz" "- 86400 < tz" "tz < 86400"
    and "py_get data ''list'' (JList []) = Inr (JList entries)"
    and "\<forall>x\<in>set entries. readable L tz x" and "\<exists>x\<in>set entries. on_date L tz T x"
  shows "\<exists>pre x post. entries = pre @ x # post \<and> on_date L tz T x
            \<and> forecast_entry L data T = Inr (Inr x)
            \<and> (\<forall>y\<in>set pre. on_date L tz T y \<longrightarrow> noon_distance L tz T x < noon_distance L tz T y)
            \<and> (\<forall>y\<in>set post. on_date L tz T y \<longrightarrow> noon_distance L tz T x \<le> noon_distance L tz T y)"
proof -
  from pick_best_some[OF assms(5,6)] obtain pre x post where
    h: "entries = pre @ x # post" "on_date L tz T x" "pick_best L tz T entries = Inr (Some x)"
       "\<forall>y\<in>set pre. on_date L tz T y \<longrightarrow> noon_distance L tz T x < noon_distance L tz T y"
       "\<forall>y\<in>set post. on_date L tz T y \<longrightarrow> noon_distance L tz T x \<le> noon_distance L tz T y"
    by blast
  obtain e0 es where ne: "entries = e0 # es" using h(1) by (cases pre) auto
  have "forecast_entry L data T = Inr (Inr x)"
    using assms(1,4) h(3) make_timezone_ok[OF assms(2,3)]
    by (simp add: forecast_entry_def ne with_fallback_def)
  with h show ?thesis by blast
qed

lemma forecast_entry_fallback:
  assumes "tz_offset_seconds data = Inr tz" "- 86400 < tz" "tz < 86400"
    and "py_get data ''list'' (JList []) = Inr (JList (e0 # es))"
    and "\<forall>x\<in>set (e0 # es). readable L tz x" and "\<forall>x\<in>set (e0 # es). \<not> on_date L tz T x"
  shows "forecast_entry L data T =
           (if is_dict e0 then Inr (Inr e0)
            else Inr (Inl ''Unexpected OpenWeatherMap response: invalid forecast entry''))"
  using assms(1,4) pick_best_none[OF assms(5,6)] make_timezone_ok[OF assms(2,3)]
  by (simp add: forecast_entry_def with_fallback_def)

lemma owm_request_weather_log:
  "snd (owm_request net ''weather'' (owm_params city key) log) = log @ [owm_call ''weather'' city key]"
  unfolding owm_request_def OPENWEATHER_BASE_URL_def lstrip_slash_def owm_call_def owm_params_def
  by (simp add: Let_def)

lemma owm_request_forecast_log:
  "snd (owm_request net ''forecast'' (owm_params city key) log) = log @ [owm_call ''forecast'' city key]"
  unfolding owm_request_def OPENWEATHER_BASE_URL_def lstrip_slash_def owm_call_def owm_params_def
  by (simp add: Let_def)

lemma current_log:
  "snd (weather_from_current L net city key log) = log @ [owm_call ''weather'' city key]"
proof -
  obtain data err log' where r: "owm_request net ''weather'' (owm_params city key) log = ((data, err), log')"
    by (metis prod.exhaust)
  then have "log' = log @ [owm_call ''weather'' city key]"
    using owm_request_weather_log[of net city key log] by simp
  then show ?thesis by (simp add: weather_from_current_def r)
qed

lemma forecast_log:
  "snd (weather_from_forecast L net city key T log) = log @ [owm_call ''forecast'' city key]"
proof -
  obtain data err log' where r: "owm_request net ''forecast'' (owm_params city key) log = ((data, err), log')"
    by (metis prod.exhaust)
  then have "log' = log @ [owm_call ''forecast'' city key]"
    using owm_request_forecast_log[of net city key log] by simp
  then show ?thesis by (simp add: weather_from_forecast_def r split: sum.splits)
qed


lemma window_eq:
  "1 \<le> today \<Longrightarrow> today + 5 \<le> MAXORDINAL \<Longrightarrow>
   in_forecast_window today d = Inr (today \<le> d \<and> d \<le> today + 5)"
  by (simp add: in_forecast_window_def date_add_days_def)

lemma gw_no_key:
  "api_key_of env = [] \<Longrightarrow>
   get_weather_impl L env today net city date = (Inr (unavailable_message city date), [])"
  by (simp add: get_weather_impl_def)

lemma gw_bad_date:
  "api_key_of env \<noteq> [] \<Longrightarrow> parse_yyyy_mm_dd date = None \<Longrightarrow>
   get_weather_impl L env today net city date = (Inr invalid_date_message, [])"
  by (simp add: get_weather_impl_def)


lemma gw_log:
  assumes "api_key_of env \<noteq> []" "parse_yyyy_mm_dd date = Some d" "in_forecast_window today d = Inr w"
  shows "snd (get_weather_impl L env today net city date) =
           [owm_call (if w then ''forecast'' else ''weather'') city (api_key_of env)]"
proof (cases w)
  case True
  obtain res log where r: "weather_from_forecast L net city (api_key_of env) d [] = (res, log)"
    by (cases "weather_from_forecast L net city (api_key_of env) d []")
  then have "log = [owm_call ''forecast'' city (api_key_of env)]"
    using forecast_log[of L net city "api_key_of env" d "[]"] by simp
  then show ?thesis using assms True r
    by (simp add: get_weather_impl_def Let_def split: sum.splits prod.splits option.splits)
next
  case False
  obtain res log where r: "weather_from_current L net city (api_key_of env) [] = (res, log)"
    by (cases "weather_from_current L net city (api_key_of env) []")
  then have "log = [owm_call ''weather'' city (api_key_of env)]"
    using current_log[of L net city "api_key_of env" "[]"] by simp
  then show ?thesis using assms False r
    by (simp add: get_weather_impl_def Let_def split: sum.splits prod.splits option.splits)
qed

lemma owm_request_ok:
  assumes "net (owm_call endpoint city key) = Response status body (Inr data)" and "status < 400"
    and "lstrip_slash endpoint = endpoint"
  shows "owm_request net endpoint (owm_params city key) log
           = ((data, None), log @ [owm_call endpoint city key])"
proof -
  have "\<lparr>url = OPENWEATHER_BASE_URL @ ''/'' @ lstrip_slash endpoint, params = owm_params city key, timeout = 15\<rparr>
          = owm_call endpoint city key"
    unfolding OPENWEATHER_BASE_URL_def owm_call_def owm_params_def assms(3) by simp
  then show ?thesis
    using assms(1,2) by (simp add: owm_request_def Let_def)
qed

lemma forecast_path_ok:
  assumes "net (owm_call ''forecast'' city key) = Response status body (Inr data)" and "status < 400"
  shows "weather_from_forecast L net city key T log =
           (case forecast_entry L data T of
              Inl e \<Rightarrow> Inl e
            | Inr (Inl message) \<Rightarrow> Inr (None, None, Some message)
            | Inr (Inr best) \<Rightarrow>
                entry_weather L ''Unexpected OpenWeatherMap response: missing forecast temperature'' best,
            log @ [owm_call ''forecast'' city key])"
proof -
  have "lstrip_slash ''forecast'' = ''forecast''" by (simp add: lstrip_slash_def)
  from owm_request_ok[of net "''forecast''" city key status body data log, OF assms this]
  show ?thesis
    by (simp add: weather_from_forecast_def opt_truthy_def split: sum.splits)
qed

lemma current_path_ok:
  assumes "net (owm_call ''weather'' city key) = Response status body (Inr data)" and "status < 400"
  shows "weather_from_current L net city key log =
           (entry_weather L ''Unexpected OpenWeatherMap response: missing temperature'' data,
            log @ [owm_call ''weather'' city key])"
proof -
  have "lstrip_slash ''weather'' = ''weather''" by (simp add: lstrip_slash_def)
  from owm_request_ok[of net "''weather''" city key status body data log, OF assms this]
  show ?thesis
    by (simp add: weather_from_current_def opt_truthy_def)
qed

lemma tz_offset_value:
  "tz_offset_seconds data =
     Inr (case value_at_path data [''city'', ''timezone''] of
            Some (JInt n) \<Rightarrow> n
          | Some (JBool b) \<Rightarrow> (if b then 1 else 0)
          | _ \<Rightarrow> 0)"
  by (simp add: tz_offset_seconds_def safe_get_value is_int_def int_value_def
           split: option.splits json.splits)

lemma unknown_conditions_not_blank: "str_strip ''Unknown conditions'' \<noteq> []"
  by code_simp

lemma conditions_not_blank: "str_strip (conditions_of desc) \<noteq> []"
  using unknown_conditions_not_blank by (cases desc) (simp_all add: conditions_of_def)

lemma temp_and_conditions_together:
  assumes "temp_and_conditions L missing temp desc = Inr r" and "missing \<noteq> []"
  shows "resolved_together r"
  using assms conditions_not_blank[of desc]
  by (auto simp: temp_and_conditions_def resolved_together_def split: if_splits sum.splits)

lemma entry_weather_together:
  assumes "entry_weather L missing data = Inr r" and "missing \<noteq> []"
  shows "resolved_together r"
  using assms temp_and_conditions_together[of L missing _ "description_of L data" r]
  by (auto simp: entry_weather_def split: sum.splits)

lemma current_together:
  assumes "weather_from_current L net city key log = (Inr r, log')"
  shows "resolved_together r"
proof -
  obtain data err l where q: "owm_request net ''weather'' (owm_params city key) log = ((data, err), l)"
    by (metis prod.exhaust)
  show ?thesis
  proof (cases "opt_truthy err")
    case True
    then have "r = (None, None, err)" using assms q by (simp add: weather_from_current_def)
    then show ?thesis using True by (auto simp: resolved_together_def opt_truthy_def split: option.splits)
  next
    case False
    then have "entry_weather L ''Unexpected OpenWeatherMap response: missing temperature'' data = Inr r"
      using assms q by (simp add: weather_from_current_def)
    then show ?thesis by (rule entry_weather_together) simp
  qed
qed

lemma forecast_entry_message:
  assumes "forecast_entry L data T = Inr (Inl message)"
  shows "message \<noteq> []"
  using assms
  by (auto simp: forecast_entry_def split: sum.splits json.splits list.splits option.splits)

lemma forecast_together:
  assumes "weather_from_forecast L net city key T log = (Inr r, log')"
  shows "resolved_together r"
proof -
  obtain data err l where q: "owm_request net ''forecast'' (owm_params city key) log = ((data, err), l)"
    by (metis prod.exhaust)
  show ?thesis
  proof (cases "opt_truthy err")
    case True
    then have "r = (None, None, err)" using assms q by (simp add: weather_from_forecast_def)
    then show ?thesis using True by (auto simp: resolved_together_def opt_truthy_def split: option.splits)
  next
    case False
    note nerr = this
    show ?thesis
    proof (cases "forecast_entry L data T")
      case (Inl e)
      then show ?thesis using assms q nerr by (simp add: weather_from_forecast_def)
    next
      case (Inr x)
      show ?thesis
      proof (cases x)
        case (Inl message)
        then have "r = (None, None, Some message)"
          using assms q nerr Inr by (simp add: weather_from_forecast_def)
        moreover have "message \<noteq> []" using forecast_entry_message Inr Inl by blast
        ultimately show ?thesis by (simp add: resolved_together_def)
      next
        case best: (Inr best)
        then have "entry_weather L ''Unexpected OpenWeatherMap response: missing forecast temperature'' best = Inr r"
          using assms q nerr Inr by (simp add: weather_from_forecast_def)
        then show ?thesis by (rule entry_weather_together) simp
      qed
    qed
  qed
qed

lemma gw_result:
  assumes "api_key_of env \<noteq> []" and "parse_yyyy_mm_dd date = Some T"
    and "in_forecast_window today T = Inr w"
    and "(if w then weather_from_forecast L net city (api_key_of env) T []
          else weather_from_current L net city (api_key_of env) []) = (Inr (temp_c, conditions, err), log)"
  shows "fst (get_weather_impl L env today net city date) =
           Inr (if opt_truthy err
                then ''Weather lookup failed for '' @ city @ '' on '' @ isoformat T @
                     '' ('' @ (if w then ''forecast'' else ''current'') @ ''): '' @
                     (case err of Some e \<Rightarrow> e | None \<Rightarrow> [])
                else (case (temp_c, conditions) of
                        (Some t, Some c) \<Rightarrow>
                          ''Weather for '' @ city @ '' on '' @ isoformat T @
                          '' ('' @ (if w then ''forecast'' else ''current'') @ ''): '' @
                          fmt_temp_c L t @ '', '' @ c @ ''.''
                      | _ \<Rightarrow>
                          ''Weather lookup failed for '' @ city @ '' on '' @ isoformat T @
                          '' ('' @ (if w then ''forecast'' else ''current'') @ ''): unexpected response''))"
  using assms
  by (cases w) (simp_all add: get_weather_impl_def Let_def split: option.splits)






section \<open>Properties\<close>

subsection \<open>The safe path lookup\<close>

text \<open>
  C3. For every nested value and every sequence of keys, \<open>safe_get\<close> raises nothing: it
  always returns a value. It returns the exact value stored at the path when every
  intermediate key exists and every intermediate value is a mapping, and \<^verbatim>\<open>None\<close> whenever
  a key is missing or an intermediate value is no mapping. A longer path resolves exactly
  when the path before its last key resolves to a mapping that has the last key. (The
  function is pure: it has no state to change.)
\<close>

theorem safe_get_contract:
  "(\<exists>v. safe_get d path = Inr v)
   \<and> (\<forall>v. value_at_path d path = Some v \<longrightarrow> safe_get d path = Inr v)
   \<and> (value_at_path d path = None \<longrightarrow> safe_get d path = Inr JNull)
   \<and> value_at_path d (path @ [key]) =
        (case value_at_path d path of
           Some (JDict kvs) \<Rightarrow> map_of kvs key
         | _ \<Rightarrow> None)"
proof -
  have last: "value_at_path d (path @ [key]) =
        (case value_at_path d path of Some (JDict kvs) \<Rightarrow> map_of kvs key | _ \<Rightarrow> None)"
  proof (induction d path rule: value_at_path.induct)
    case (1 v)
    show ?case by (cases v) (simp_all split: option.splits)
  next
    case (2 kvs k path)
    then show ?case by (cases "map_of kvs k") simp_all
  qed simp_all
  show ?thesis
    using last safe_get_value[of d path] by (simp split: option.splits)
qed

text \<open>
  A nested mapping with the path to the temperature, and one where \<^verbatim>\<open>main\<close> is a number.
\<close>

theorem safe_get_contract_witness:
  "value_at_path (JDict [(''main'', JDict [(''temp'', JInt 21)])] :: int json) [''main'', ''temp''] = Some (JInt 21)
   \<and> safe_get (JDict [(''main'', JDict [(''temp'', JInt 21)])] :: int json) [''main'', ''temp''] = Inr (JInt 21)
   \<and> value_at_path (JDict [(''main'', JInt 3)] :: int json) [''main'', ''temp''] = None
   \<and> safe_get (JDict [(''main'', JInt 3)] :: int json) [''main'', ''temp''] = Inr JNull"
  using safe_get_contract[of "JDict [(''main'', JDict [(''temp'', JInt 21)])] :: int json" "[''main'', ''temp'']"]
    safe_get_contract[of "JDict [(''main'', JInt 3)] :: int json" "[''main'', ''temp'']"]
  by simp

subsection \<open>The window decision\<close>

text \<open>
  C1. Let the credential be present and the date string parse as the date \<open>d\<close>; let
  \<open>today\<close>, the current UTC date, and \<open>today + 5\<close> days be dates (today is no later
  than 9999-12-26). Then \<open>get_weather_impl\<close> sends exactly one request, to the forecast
  endpoint if and only if \<open>today \<le> d \<le> today + 5\<close> (both ends included), and to the
  current-conditions endpoint for every other \<open>d\<close>. Dates are ordinals, so \<open>today + 5\<close>
  is the date five days after today.
\<close>

theorem forecast_window_decision:
  assumes "api_key_of env \<noteq> []" and "parse_yyyy_mm_dd date = Some d"
    and "1 \<le> today" and "today + 5 \<le> MAXORDINAL"
  shows "(today \<le> d \<and> d \<le> today + 5 \<longrightarrow>
            snd (get_weather_impl L env today net city date) = [owm_call ''forecast'' city (api_key_of env)])
       \<and> (\<not> (today \<le> d \<and> d \<le> today + 5) \<longrightarrow>
            snd (get_weather_impl L env today net city date) = [owm_call ''weather'' city (api_key_of env)])
       \<and> ((snd (get_weather_impl L env today net city date) = [owm_call ''forecast'' city (api_key_of env)])
            = (today \<le> d \<and> d \<le> today + 5))"
proof -
  have ne: "owm_call ''weather'' city (api_key_of env) \<noteq> owm_call ''forecast'' city (api_key_of env)"
    by (simp add: owm_call_def)
  show ?thesis
    using gw_log[OF assms(1,2) window_eq[OF assms(3,4)], of L net city] ne
    by (cases "today \<le> d \<and> d \<le> today + 5") simp_all
qed

text \<open>
  Today is 2030-01-01: 2030-01-06, five days later, is looked up in the forecast and
  2030-01-07 in the current conditions.
\<close>

theorem forecast_window_decision_witness:
  "api_key_of example_env \<noteq> [] \<and> parse_yyyy_mm_dd ''2030-01-06'' = Some 741083
   \<and> (1::int) \<le> 741078 \<and> (741078::int) + 5 \<le> MAXORDINAL
   \<and> snd (get_weather_impl whole_floats example_env 741078 example_net ''Tokyo'' ''2030-01-06'')
       = [owm_call ''forecast'' ''Tokyo'' ''k3y'']
   \<and> parse_yyyy_mm_dd ''2030-01-07'' = Some 741084
   \<and> snd (get_weather_impl whole_floats example_env 741078 example_net ''Tokyo'' ''2030-01-07'')
       = [owm_call ''weather'' ''Tokyo'' ''k3y'']"
proof -
  have k: "api_key_of example_env = ''k3y''" by code_simp
  have h1: "api_key_of example_env \<noteq> []" by (simp add: k)
  have h2: "parse_yyyy_mm_dd ''2030-01-06'' = Some 741083" by code_simp
  have h2': "parse_yyyy_mm_dd ''2030-01-07'' = Some 741084" by code_simp
  have h3: "(1::int) \<le> 741078" by simp
  have h4: "(741078::int) + 5 \<le> MAXORDINAL" by (simp add: MAXORDINAL_def)
  show ?thesis
    using forecast_window_decision[OF h1 h2 h3 h4, of whole_floats example_net "''Tokyo''"]
      forecast_window_decision[OF h1 h2' h3 h4, of whole_floats example_net "''Tokyo''"]
      h1 h2 h2' h3 h4
    by (simp add: k)
qed

subsection \<open>The credential and the date string\<close>

text \<open>
  C7, as the code has it. When the credential is absent from the environment, or blank,
  \<open>get_weather_impl\<close> returns the unavailable-credential message at once and sends no
  request. When the credential is present, an invocation sends exactly one request if
  the date string parses, and none if it does not.
\<close>

theorem network_calls_count:
  "(env ''OPENWEATHER_API_KEY'' = None \<longrightarrow>
      get_weather_impl L env today net city date = (Inr (unavailable_message city date), []))
   \<and> (api_key_of env = [] \<longrightarrow>
      get_weather_impl L env today net city date = (Inr (unavailable_message city date), []))
   \<and> (api_key_of env \<noteq> [] \<and> parse_yyyy_mm_dd date = None \<longrightarrow>
      snd (get_weather_impl L env today net city date) = [])
   \<and> (api_key_of env \<noteq> [] \<and> parse_yyyy_mm_dd date \<noteq> None \<and> 1 \<le> today \<and> today + 5 \<le> MAXORDINAL \<longrightarrow>
      length (snd (get_weather_impl L env today net city date)) = 1)"
proof -
  have absent: "env ''OPENWEATHER_API_KEY'' = None \<Longrightarrow> api_key_of env = []"
    by (simp add: api_key_of_def str_strip_def)
  have one: "length (snd (get_weather_impl L env today net city date)) = 1"
    if "api_key_of env \<noteq> []" "parse_yyyy_mm_dd date \<noteq> None" "1 \<le> today" "today + 5 \<le> MAXORDINAL"
  proof -
    from that(2) obtain d where d: "parse_yyyy_mm_dd date = Some d" by auto
    show ?thesis
      using gw_log[OF that(1) d window_eq[OF that(3,4)], of L net city] by simp
  qed
  show ?thesis
    using absent gw_no_key[of env L today net city date] gw_bad_date[of env date L today net city] one
    by auto
qed

text \<open>
  The claim as the spec states it (one request whenever the credential is present) fails
  on a date string that does not parse: no request is sent.
\<close>

theorem network_calls_counterexample:
  "example_env ''OPENWEATHER_API_KEY'' = Some ''k3y''
   \<and> api_key_of example_env = ''k3y''
   \<and> get_weather_impl whole_floats example_env 741078 example_net ''Tokyo'' ''not-a-date''
       = (Inr ''Invalid date format. Please use YYYY-MM-DD.'', [])"
  by code_simp

theorem network_calls_count_witness:
  "Map.empty ''OPENWEATHER_API_KEY'' = (None :: string option)
   \<and> get_weather_impl whole_floats Map.empty 741078 example_net ''Tokyo'' ''2030-01-01''
       = (Inr (unavailable_message ''Tokyo'' ''2030-01-01''), [])
   \<and> api_key_of example_env \<noteq> [] \<and> parse_yyyy_mm_dd ''2030-01-01'' \<noteq> None
   \<and> (1::int) \<le> 741078 \<and> (741078::int) + 5 \<le> MAXORDINAL
   \<and> length (snd (get_weather_impl whole_floats example_env 741078 example_net ''Tokyo'' ''2030-01-01'')) = 1
   \<and> parse_yyyy_mm_dd ''not-a-date'' = None
   \<and> snd (get_weather_impl whole_floats example_env 741078 example_net ''Tokyo'' ''not-a-date'') = []"
proof -
  have k: "api_key_of example_env \<noteq> []" by code_simp
  have p: "parse_yyyy_mm_dd ''2030-01-01'' \<noteq> None" by code_simp
  have q: "parse_yyyy_mm_dd ''not-a-date'' = None" by code_simp
  have m: "(741078::int) + 5 \<le> MAXORDINAL" by (simp add: MAXORDINAL_def)
  show ?thesis
    using network_calls_count[of Map.empty whole_floats 741078 example_net "''Tokyo''" "''2030-01-01''"]
      network_calls_count[of example_env whole_floats 741078 example_net "''Tokyo''" "''2030-01-01''"]
      network_calls_count[of example_env whole_floats 741078 example_net "''Tokyo''" "''not-a-date''"]
      k p q m
    by simp
qed



text \<open>
  C10. The credential is checked before the date string. Without the credential the
  result is the unavailable-credential message, which carries the \<^verbatim>\<open>repr\<close> of the city
  and of the date string, whatever the date string is; in particular a malformed date
  string does not give the invalid-date message. That message is returned only when the
  credential is present.
\<close>

theorem credential_checked_first:
  "(api_key_of env = [] \<longrightarrow>
      get_weather_impl L env today net city date
        = (Inr (''Weather lookup unavailable: missing OPENWEATHER_API_KEY environment variable.''
                @ [CHR 0x0A] @ ''Input: city='' @ str_repr city @ '', date='' @ str_repr date), []))
   \<and> (api_key_of env = [] \<and> parse_yyyy_mm_dd date = None \<longrightarrow>
      fst (get_weather_impl L env today net city date) \<noteq> Inr invalid_date_message)
   \<and> (fst (get_weather_impl L env today net city date) = Inr invalid_date_message \<longrightarrow>
      api_key_of env \<noteq> [])"
proof -
  have differ: "unavailable_message city date \<noteq> invalid_date_message"
    by (simp add: unavailable_message_def invalid_date_message_def)
  show ?thesis
    using gw_no_key[of env L today net city date] differ
    by (auto simp: unavailable_message_def)
qed

theorem credential_checked_first_witness:
  "api_key_of Map.empty = [] \<and> parse_yyyy_mm_dd ''not-a-date'' = None
   \<and> get_weather_impl whole_floats Map.empty 741078 example_net ''Tokyo'' ''not-a-date''
        = (Inr (''Weather lookup unavailable: missing OPENWEATHER_API_KEY environment variable.''
                @ [CHR 0x0A] @ ''Input: city='' @ str_repr ''Tokyo'' @ '', date='' @ str_repr ''not-a-date''), [])
   \<and> fst (get_weather_impl whole_floats Map.empty 741078 example_net ''Tokyo'' ''not-a-date'')
        \<noteq> Inr invalid_date_message
   \<and> fst (get_weather_impl whole_floats example_env 741078 example_net ''Tokyo'' ''not-a-date'')
        = Inr invalid_date_message
   \<and> api_key_of example_env \<noteq> []"
proof -
  have k: "api_key_of Map.empty = []" by code_simp
  have q: "parse_yyyy_mm_dd ''not-a-date'' = None" by code_simp
  have r: "fst (get_weather_impl whole_floats example_env 741078 example_net ''Tokyo'' ''not-a-date'')
        = Inr invalid_date_message" by code_simp
  note t1 = credential_checked_first[of Map.empty whole_floats 741078 example_net "''Tokyo''" "''not-a-date''"]
  note t2 = credential_checked_first[of example_env whole_floats 741078 example_net "''Tokyo''" "''not-a-date''"]
  from t1 k q have c1: "get_weather_impl whole_floats Map.empty 741078 example_net ''Tokyo'' ''not-a-date''
        = (Inr (''Weather lookup unavailable: missing OPENWEATHER_API_KEY environment variable.''
                @ [CHR 0x0A] @ ''Input: city='' @ str_repr ''Tokyo'' @ '', date='' @ str_repr ''not-a-date''), [])"
    and c2: "fst (get_weather_impl whole_floats Map.empty 741078 example_net ''Tokyo'' ''not-a-date'')
        \<noteq> Inr invalid_date_message"
    by blast+
  from t2 r have c3: "api_key_of example_env \<noteq> []" by blast
  show ?thesis using k q c1 c2 r c3 by blast
qed

subsection \<open>The forecast path: which entry is read\<close>

text \<open>
  C2, as the code has it. Let the feed's offset, \<^verbatim>\<open>data["city"]["timezone"]\<close> when that is
  an int and 0 when it is absent or no int (in Python a bool is an int), be strictly
  between -86400 and 86400 seconds, and let every entry of the list with a numeric
  \<^verbatim>\<open>dt\<close> have a datetime in the feed's timezone (the loop raises on no entry). If at
  least one entry is on the target date there, the forecast path reads the entry that
  is on the target date and closest to 12:00 local time, the first such entry in list
  order where several are equally close: every matching entry before it is strictly
  farther from noon, every matching entry after it is at least as far. Temperature and
  description are then taken from that entry.
\<close>

theorem forecast_selects_closest_to_noon:
  assumes "tz_offset_seconds data = Inr tz" and "- 86400 < tz" and "tz < 86400"
    and "py_get data ''list'' (JList []) = Inr (JList entries)"
    and "\<forall>x\<in>set entries. readable L tz x"
    and "\<exists>x\<in>set entries. on_date L tz target x"
  shows "\<exists>before chosen after.
           entries = before @ chosen # after
         \<and> on_date L tz target chosen
         \<and> forecast_entry L data target = Inr (Inr chosen)
         \<and> (\<forall>y\<in>set before. on_date L tz target y \<longrightarrow>
               noon_distance L tz target chosen < noon_distance L tz target y)
         \<and> (\<forall>y\<in>set after. on_date L tz target y \<longrightarrow>
               noon_distance L tz target chosen \<le> noon_distance L tz target y)
         \<and> (\<forall>net city key status text log.
               net (owm_call ''forecast'' city key) = Response status text (Inr data) \<and> status < 400 \<longrightarrow>
               fst (weather_from_forecast L net city key target log) =
                 entry_weather L ''Unexpected OpenWeatherMap response: missing forecast temperature'' chosen)
         \<and> tz = (case value_at_path data [''city'', ''timezone''] of
                   Some (JInt n) \<Rightarrow> n
                 | Some (JBool b) \<Rightarrow> (if b then 1 else 0)
                 | _ \<Rightarrow> 0)"
proof -
  from forecast_entry_some[OF assms] obtain before chosen after where
    h: "entries = before @ chosen # after" "on_date L tz target chosen"
       "forecast_entry L data target = Inr (Inr chosen)"
       "\<forall>y\<in>set before. on_date L tz target y \<longrightarrow>
               noon_distance L tz target chosen < noon_distance L tz target y"
       "\<forall>y\<in>set after. on_date L tz target y \<longrightarrow>
               noon_distance L tz target chosen \<le> noon_distance L tz target y"
    by blast
  have path: "\<forall>net city key status text log.
               net (owm_call ''forecast'' city key) = Response status text (Inr data) \<and> status < 400 \<longrightarrow>
               fst (weather_from_forecast L net city key target log) =
                 entry_weather L ''Unexpected OpenWeatherMap response: missing forecast temperature'' chosen"
    using h(3) by (simp add: forecast_path_ok)
  have off: "tz = (case value_at_path data [''city'', ''timezone''] of
                   Some (JInt n) \<Rightarrow> n
                 | Some (JBool b) \<Rightarrow> (if b then 1 else 0)
                 | _ \<Rightarrow> 0)"
    using assms(1) tz_offset_value[of data] by simp
  from h path off show ?thesis by blast
qed

text \<open>
  The example feed has entries at 09:00, 12:00 and 15:00 local time on 2030-01-01 (and
  one on the next day): the entry at 12:00, with temperature 9, is the one read.
\<close>

theorem forecast_selects_closest_to_noon_witness:
  "tz_offset_seconds example_forecast = Inr 32400
   \<and> py_get example_forecast ''list'' (JList []) =
        Inr (JList [example_entry 1893456000 4, example_entry 1893466800 9,
                    example_entry 1893477600 8, example_entry 1893542400 3])
   \<and> list_all (readable whole_floats 32400)
        [example_entry 1893456000 4, example_entry 1893466800 9,
         example_entry 1893477600 8, example_entry 1893542400 3]
   \<and> on_date whole_floats 32400 741078 (example_entry 1893466800 9)
   \<and> entry_time whole_floats 32400 (example_entry 1893456000 4) = Some (Inr ((1893456000 + 9 * 3600) * 1000000))
   \<and> entry_time whole_floats 32400 (example_entry 1893466800 9) = Some (Inr ((1893456000 + 12 * 3600) * 1000000))
   \<and> entry_time whole_floats 32400 (example_entry 1893477600 8) = Some (Inr ((1893456000 + 15 * 3600) * 1000000))
   \<and> forecast_entry whole_floats example_forecast 741078 = Inr (Inr (example_entry 1893466800 9))
   \<and> (\<exists>before chosen after.
         [example_entry 1893456000 4, example_entry 1893466800 9,
          example_entry 1893477600 8, example_entry 1893542400 3] = before @ chosen # after
         \<and> forecast_entry whole_floats example_forecast 741078 = Inr (Inr chosen))"
proof -
  let ?es = "[example_entry 1893456000 4, example_entry 1893466800 9,
              example_entry 1893477600 8, example_entry 1893542400 3]"
  have a1: "tz_offset_seconds example_forecast = Inr 32400" by code_simp
  have a2: "(- 86400 :: int) < 32400" by simp
  have a3: "(32400 :: int) < 86400" by simp
  have a4: "py_get example_forecast ''list'' (JList []) = Inr (JList ?es)" by code_simp
  have a5: "\<forall>x\<in>set ?es. readable whole_floats 32400 x" by code_simp
  have m: "on_date whole_floats 32400 741078 (example_entry 1893466800 9)" by code_simp
  then have a6: "\<exists>x\<in>set ?es. on_date whole_floats 32400 741078 x" by simp
  have t1: "entry_time whole_floats 32400 (example_entry 1893456000 4) = Some (Inr ((1893456000 + 9 * 3600) * 1000000))"
    by code_simp
  have t2: "entry_time whole_floats 32400 (example_entry 1893466800 9) = Some (Inr ((1893456000 + 12 * 3600) * 1000000))"
    by code_simp
  have t3: "entry_time whole_floats 32400 (example_entry 1893477600 8) = Some (Inr ((1893456000 + 15 * 3600) * 1000000))"
    by code_simp
  have r: "forecast_entry whole_floats example_forecast 741078 = Inr (Inr (example_entry 1893466800 9))"
    by code_simp
  from forecast_selects_closest_to_noon[OF a1 a2 a3 a4 a5 a6]
  have "\<exists>before chosen after. ?es = before @ chosen # after
         \<and> forecast_entry whole_floats example_forecast 741078 = Inr (Inr chosen)"
    by blast
  moreover have "list_all (readable whole_floats 32400) ?es"
    using a5 by (simp only: list_all_iff)
  ultimately show ?thesis using a1 a4 m t1 t2 t3 r by blast
qed

text \<open>
  The claim as the spec states it, for every list with a matching entry, fails in two
  ways. An offset of 86400 seconds is an int, but \<^verbatim>\<open>timezone\<close> refuses it: the path raises
  \<^verbatim>\<open>ValueError\<close> although an entry is on the target date at that offset. And an entry
  whose timestamp is in milliseconds has no datetime: the loop raises on it although the
  next entry is on the target date (2030-01-01, at 12:00 local time).
\<close>

theorem forecast_selects_closest_to_noon_counterexample:
  "tz_offset_seconds (JDict [(''city'', JDict [(''timezone'', JInt 86400)]),
                             (''list'', JList [example_entry 1893456000 4])] :: int json) = Inr 86400
   \<and> on_date whole_floats 86400 741079 (example_entry 1893456000 4)
   \<and> forecast_entry whole_floats
        (JDict [(''city'', JDict [(''timezone'', JInt 86400)]),
                (''list'', JList [example_entry 1893456000 4])]) 741079 = Inl ValueError
   \<and> tz_offset_seconds (JDict [(''city'', JDict [(''timezone'', JInt 32400)]),
                               (''list'', JList [example_entry 1893456000000 4, example_entry 1893466800 9])] :: int json)
        = Inr 32400
   \<and> on_date whole_floats 32400 741078 (example_entry 1893466800 9)
   \<and> forecast_entry whole_floats
        (JDict [(''city'', JDict [(''timezone'', JInt 32400)]),
                (''list'', JList [example_entry 1893456000000 4, example_entry 1893466800 9])]) 741078
        = Inl ValueError"
  by code_simp

text \<open>
  C5, as the code has it. Under the same conditions on the offset and the timestamps,
  when the list is not empty and no entry is on the target date, the forecast path
  falls back to the first entry of the list if that entry is a mapping, and reads
  temperature and description from it; if the first entry is no mapping, the path
  returns the failure message \<^verbatim>\<open>invalid forecast entry\<close>.
\<close>

theorem forecast_falls_back_to_first:
  assumes "tz_offset_seconds data = Inr tz" and "- 86400 < tz" and "tz < 86400"
    and "py_get data ''list'' (JList []) = Inr (JList (e0 # es))"
    and "\<forall>x\<in>set (e0 # es). readable L tz x"
    and "\<forall>x\<in>set (e0 # es). \<not> on_date L tz target x"
  shows "forecast_entry L data target =
           (if is_dict e0 then Inr (Inr e0)
            else Inr (Inl ''Unexpected OpenWeatherMap response: invalid forecast entry''))
       \<and> (\<forall>net city key status text log.
             net (owm_call ''forecast'' city key) = Response status text (Inr data) \<and> status < 400 \<longrightarrow>
             fst (weather_from_forecast L net city key target log) =
               (if is_dict e0
                then entry_weather L ''Unexpected OpenWeatherMap response: missing forecast temperature'' e0
                else Inr (None, None, Some ''Unexpected OpenWeatherMap response: invalid forecast entry'')))"
  using forecast_entry_fallback[OF assms] by (simp add: forecast_path_ok)

text \<open>
  On 2030-01-03 the example feed has no entry: the first entry of the list, with
  temperature 4, is read.
\<close>

theorem forecast_falls_back_to_first_witness:
  "tz_offset_seconds example_forecast = Inr 32400
   \<and> py_get example_forecast ''list'' (JList []) =
        Inr (JList (example_entry 1893456000 4 #
                    [example_entry 1893466800 9, example_entry 1893477600 8, example_entry 1893542400 3]))
   \<and> list_all (\<lambda>x. readable whole_floats 32400 x \<and> \<not> on_date whole_floats 32400 741080 x)
        (example_entry 1893456000 4 #
         [example_entry 1893466800 9, example_entry 1893477600 8, example_entry 1893542400 3])
   \<and> is_dict (example_entry 1893456000 4)
   \<and> forecast_entry whole_floats example_forecast 741080 = Inr (Inr (example_entry 1893456000 4))
   \<and> fst (weather_from_forecast whole_floats example_net ''Tokyo'' ''k3y'' 741080 [])
        = Inr (Some 4, Some ''clear sky'', None)"
proof -
  let ?e0 = "example_entry 1893456000 4"
  let ?es = "[example_entry 1893466800 9, example_entry 1893477600 8, example_entry 1893542400 3]"
  have a1: "tz_offset_seconds example_forecast = Inr 32400" by code_simp
  have a2: "(- 86400 :: int) < 32400" by simp
  have a3: "(32400 :: int) < 86400" by simp
  have a4: "py_get example_forecast ''list'' (JList []) = Inr (JList (?e0 # ?es))" by code_simp
  have a5: "\<forall>x\<in>set (?e0 # ?es). readable whole_floats 32400 x" by code_simp
  have a6: "\<forall>x\<in>set (?e0 # ?es). \<not> on_date whole_floats 32400 741080 x" by code_simp
  have d: "is_dict ?e0" by code_simp
  have n: "example_net (owm_call ''forecast'' ''Tokyo'' ''k3y'') = Response 200 [] (Inr example_forecast)"
    by code_simp
  have w: "entry_weather whole_floats ''Unexpected OpenWeatherMap response: missing forecast temperature'' ?e0
             = Inr (Some 4, Some ''clear sky'', None)"
    by code_simp
  note t = forecast_falls_back_to_first[OF a1 a2 a3 a4 a5 a6]
  from t d have r1: "forecast_entry whole_floats example_forecast 741080 = Inr (Inr ?e0)"
    by simp
  from t d n w have r2: "fst (weather_from_forecast whole_floats example_net ''Tokyo'' ''k3y'' 741080 [])
        = Inr (Some 4, Some ''clear sky'', None)"
    by simp
  have a7: "list_all (\<lambda>x. readable whole_floats 32400 x \<and> \<not> on_date whole_floats 32400 741080 x) (?e0 # ?es)"
    using a5 a6 by (simp only: list_all_iff) blast
  from a1 a4 a7 d r1 r2 show ?thesis by blast
qed

text \<open>
  The claim as the spec states it, for every list that is not empty, fails when the
  first entry is no mapping: with the list \<^verbatim>\<open>[42]\<close> nothing is read and the lookup
  reports a failure.
\<close>

theorem forecast_falls_back_to_first_counterexample:
  "py_get (JDict [(''list'', JList [JInt 42])] :: int json) ''list'' (JList []) = Inr (JList [JInt 42])
   \<and> \<not> on_date whole_floats 0 741078 (JInt 42)
   \<and> forecast_entry whole_floats (JDict [(''list'', JList [JInt 42])]) 741078
        = Inr (Inl ''Unexpected OpenWeatherMap response: invalid forecast entry'')
   \<and> get_weather_impl whole_floats example_env 741078
        (\<lambda>req. Response 200 [] (Inr (JDict [(''list'', JList [JInt 42])]))) ''Tokyo'' ''2030-01-01''
        = (Inr ''Weather lookup failed for Tokyo on 2030-01-01 (forecast): Unexpected OpenWeatherMap response: invalid forecast entry'',
           [owm_call ''forecast'' ''Tokyo'' ''k3y''])"
  by code_simp

subsection \<open>Temperature and conditions resolve together\<close>

text \<open>
  C6. Whatever the transport answers, a result that either path returns is a temperature
  (a float) together with a condition text that is not blank and no error, or no
  temperature, no condition text and an error message that is not empty; there is no
  third shape. (A path that raises returns no result.) In particular, when the
  temperature at \<^verbatim>\<open>main.temp\<close> is missing or not numeric (numeric is Python's
  \<^verbatim>\<open>isinstance(temp, (int, float))\<close>, which holds of ints, of floats and of bools), the
  result is the failure message of the path, and \<open>get_weather_impl\<close> returns a failure
  string after its one request; and when the temperature is numeric, a description that
  is missing, no string or blank becomes \<^verbatim>\<open>Unknown conditions\<close>.
\<close>

theorem temperature_and_conditions_together:
  "(weather_from_current L net city key log = (Inr r, log') \<longrightarrow> resolved_together r)
   \<and> (weather_from_forecast L net city key target log = (Inr r, log') \<longrightarrow> resolved_together r)
   \<and> (safe_get best [''main'', ''temp''] = Inr temp \<and> \<not> is_int_or_float temp \<longrightarrow>
        entry_weather L missing best = Inr (None, None, Some missing))
   \<and> (value_at_path best [''main'', ''temp''] = None \<longrightarrow>
        entry_weather L missing best = Inr (None, None, Some missing))
   \<and> (net (owm_call ''weather'' city key) = Response status body (Inr best) \<and> status < 400
        \<and> safe_get best [''main'', ''temp''] = Inr temp \<and> \<not> is_int_or_float temp \<longrightarrow>
        weather_from_current L net city key [] =
          (Inr (None, None, Some ''Unexpected OpenWeatherMap response: missing temperature''),
           [owm_call ''weather'' city key]))
   \<and> (api_key_of env \<noteq> [] \<and> parse_yyyy_mm_dd date = Some target
        \<and> in_forecast_window today target = Inr w
        \<and> (if w then weather_from_forecast L net city (api_key_of env) target []
             else weather_from_current L net city (api_key_of env) []) = (Inr (None, None, Some missing), log')
        \<and> missing \<noteq> [] \<longrightarrow>
        get_weather_impl L env today net city date =
          (Inr (''Weather lookup failed for '' @ city @ '' on '' @ isoformat target @
                '' ('' @ (if w then ''forecast'' else ''current'') @ ''): '' @ missing),
           [owm_call (if w then ''forecast'' else ''weather'') city (api_key_of env)]))
   \<and> (safe_get best [''main'', ''temp''] = Inr temp \<and> is_int_or_float temp \<and> py_float L temp = Inr t \<longrightarrow>
        entry_weather L missing best = Inr (Some t, Some (conditions_of (description_of L best)), None))
   \<and> ((\<forall>s. desc = JStr s \<longrightarrow> str_strip s = []) \<longrightarrow> conditions_of desc = ''Unknown conditions'')
   \<and> (str_strip s \<noteq> [] \<longrightarrow> conditions_of (JStr s) = s)"
proof -
  have c1: "weather_from_current L net city key log = (Inr r, log') \<longrightarrow> resolved_together r"
    using current_together by blast
  have c2: "weather_from_forecast L net city key target log = (Inr r, log') \<longrightarrow> resolved_together r"
    using forecast_together by blast
  have c3: "safe_get best [''main'', ''temp''] = Inr temp \<and> \<not> is_int_or_float temp \<longrightarrow>
        entry_weather L missing best = Inr (None, None, Some missing)"
    by (simp add: entry_weather_def temp_and_conditions_def)
  have c4: "value_at_path best [''main'', ''temp''] = None \<longrightarrow>
        entry_weather L missing best = Inr (None, None, Some missing)"
    using safe_get_value[of best "[''main'', ''temp'']"]
    by (simp add: entry_weather_def temp_and_conditions_def is_int_or_float_def)
  have c5: "net (owm_call ''weather'' city key) = Response status body (Inr best) \<and> status < 400
        \<and> safe_get best [''main'', ''temp''] = Inr temp \<and> \<not> is_int_or_float temp \<longrightarrow>
        weather_from_current L net city key [] =
          (Inr (None, None, Some ''Unexpected OpenWeatherMap response: missing temperature''),
           [owm_call ''weather'' city key])"
    using c3 by (simp add: current_path_ok entry_weather_def temp_and_conditions_def)
  have c6: "get_weather_impl L env today net city date =
          (Inr (''Weather lookup failed for '' @ city @ '' on '' @ isoformat target @
                '' ('' @ (if w then ''forecast'' else ''current'') @ ''): '' @ missing),
           [owm_call (if w then ''forecast'' else ''weather'') city (api_key_of env)])"
    if h: "api_key_of env \<noteq> []" "parse_yyyy_mm_dd date = Some target"
       "in_forecast_window today target = Inr w"
       "(if w then weather_from_forecast L net city (api_key_of env) target []
         else weather_from_current L net city (api_key_of env) []) = (Inr (None, None, Some missing), log')"
       "missing \<noteq> []"
  proof -
    from gw_result[OF h(1,2,3,4)] h(5)
    have "fst (get_weather_impl L env today net city date) =
            Inr (''Weather lookup failed for '' @ city @ '' on '' @ isoformat target @
                 '' ('' @ (if w then ''forecast'' else ''current'') @ ''): '' @ missing)"
      by (simp add: opt_truthy_def)
    moreover have "snd (get_weather_impl L env today net city date)
                     = [owm_call (if w then ''forecast'' else ''weather'') city (api_key_of env)]"
      using gw_log[OF h(1,2,3), of L net city] by simp
    ultimately show ?thesis by (simp add: prod_eq_iff)
  qed
  have c7: "safe_get best [''main'', ''temp''] = Inr temp \<and> is_int_or_float temp \<and> py_float L temp = Inr t \<longrightarrow>
        entry_weather L missing best = Inr (Some t, Some (conditions_of (description_of L best)), None)"
    by (simp add: entry_weather_def temp_and_conditions_def)
  have c8: "(\<forall>s. desc = JStr s \<longrightarrow> str_strip s = []) \<longrightarrow> conditions_of desc = ''Unknown conditions''"
    by (cases desc) (simp_all add: conditions_of_def)
  have c9: "str_strip s \<noteq> [] \<longrightarrow> conditions_of (JStr s) = s"
    by (simp add: conditions_of_def)
  from c1 c2 c3 c4 c5 c6 c7 c8 c9 show ?thesis by blast
qed

text \<open>
  The current conditions of the example resolve to 7 degrees and \<^verbatim>\<open>light rain\<close>; a
  response whose temperature is the string \<^verbatim>\<open>warm\<close> is a failure, although it has a
  description; a response with a temperature and no description has
  \<^verbatim>\<open>Unknown conditions\<close>.
\<close>

theorem temperature_and_conditions_together_witness:
  "weather_from_current whole_floats example_net ''Tokyo'' ''k3y'' []
     = (Inr (Some 7, Some ''light rain'', None), [owm_call ''weather'' ''Tokyo'' ''k3y''])
   \<and> resolved_together (Some (7::int), Some ''light rain'', None)
   \<and> safe_get (JDict [(''main'', JDict [(''temp'', JStr ''warm'')]),
                       (''weather'', JList [JDict [(''description'', JStr ''mist'')]])] :: int json)
        [''main'', ''temp''] = Inr (JStr ''warm'')
   \<and> \<not> is_int_or_float (JStr ''warm'' :: int json)
   \<and> entry_weather whole_floats ''Unexpected OpenWeatherMap response: missing temperature''
        (JDict [(''main'', JDict [(''temp'', JStr ''warm'')]),
                (''weather'', JList [JDict [(''description'', JStr ''mist'')]])])
       = Inr (None, None, Some ''Unexpected OpenWeatherMap response: missing temperature'')
   \<and> entry_weather whole_floats ''Unexpected OpenWeatherMap response: missing temperature''
        (JDict [(''main'', JDict [(''temp'', JInt 21)])])
       = Inr (Some 21, Some ''Unknown conditions'', None)"
proof -
  let ?warm = "JDict [(''main'', JDict [(''temp'', JStr ''warm'')]),
                      (''weather'', JList [JDict [(''description'', JStr ''mist'')]])] :: int json"
  let ?bare = "JDict [(''main'', JDict [(''temp'', JInt 21)])] :: int json"
  let ?m = "''Unexpected OpenWeatherMap response: missing temperature''"
  have a: "weather_from_current whole_floats example_net ''Tokyo'' ''k3y'' []
     = (Inr (Some 7, Some ''light rain'', None), [owm_call ''weather'' ''Tokyo'' ''k3y''])"
    by code_simp
  have b: "safe_get ?warm [''main'', ''temp''] = Inr (JStr ''warm'')" by code_simp
  have c: "\<not> is_int_or_float (JStr ''warm'' :: int json)" by code_simp
  have d: "safe_get ?bare [''main'', ''temp''] = Inr (JInt 21)" by code_simp
  have e: "is_int_or_float (JInt 21 :: int json)" by code_simp
  have f: "py_float whole_floats (JInt 21) = Inr 21" by code_simp
  have g: "conditions_of (description_of whole_floats ?bare) = ''Unknown conditions''" by code_simp
  from temperature_and_conditions_together[of whole_floats example_net "''Tokyo''" "''k3y''" "[]"
      "(Some 7, Some ''light rain'', None)" "[owm_call ''weather'' ''Tokyo'' ''k3y'']"] a
  have r1: "resolved_together (Some (7::int), Some ''light rain'', None)" by blast
  from temperature_and_conditions_together[where best = ?warm and temp = "JStr ''warm''"
      and L = whole_floats and missing = ?m] b c
  have r2: "entry_weather whole_floats ?m ?warm = Inr (None, None, Some ?m)" by blast
  from temperature_and_conditions_together[where best = ?bare and temp = "JInt 21"
      and L = whole_floats and missing = ?m and t = 21] d e f
  have "entry_weather whole_floats ?m ?bare
          = Inr (Some 21, Some (conditions_of (description_of whole_floats ?bare)), None)" by blast
  then have r3: "entry_weather whole_floats ?m ?bare = Inr (Some 21, Some ''Unknown conditions'', None)"
    by (simp only: g)
  from a r1 b c r2 r3 show ?thesis by blast
qed

subsection \<open>The rendered line\<close>



subsection \<open>The mock travel catalog\<close>




end
